theory Spec2Isabelle
  imports Main
begin

section \<open>Calling-convention lowering of the CIR code generator (CIRGenCall.cpp)\<close>

text \<open>
  A shallow embedding of \<^verbatim>\<open>clang/lib/CIR/CodeGen/CIRGenCall.cpp\<close>: the signature
  descriptor and its factory, the signature arrangers, the machine function type of a
  descriptor, the attribute synthesis of a call or definition, and the three parts of
  \<^verbatim>\<open>CIRGenFunction::emitCall\<close> that shape a call (argument materialisation, the
  call-or-invoke decision, the extraction of the returned value).

  Conventions of the embedding.
  \<^item> \<^verbatim>\<open>assert(...)\<close> and \<^verbatim>\<open>llvm_unreachable(...)\<close> abort the compiler; both are
    values \<open>Inl\<close> of a sum type, so every function that can abort returns
    \<open>fault + result\<close>. The model is the one of a build with assertions enabled.
  \<^item> \<^verbatim>\<open>unsigned\<close> counts and sizes are \<open>nat\<close>: no count of this file is ever close
    to \<open>2^32\<close>, and the one sentinel \<^verbatim>\<open>~0U\<close> of \<^verbatim>\<open>RequiredArgs\<close> is a constructor
    of its own.
  \<^item> Source types are the canonical, unqualified types of the AST; the helpers of the AST
    library that canonicalise or strip qualifiers (\<^verbatim>\<open>getCanonicalParamType\<close>,
    \<^verbatim>\<open>getCanonicalTypeUnqualified\<close>, \<^verbatim>\<open>getUnqualifiedType\<close>) are therefore the
    identity and are not written.
\<close>

subsection \<open>Faults\<close>

datatype fault =
    AssertionFailed string
  | Unreachable string

subsection \<open>Source-level types and declarations\<close>

datatype QualType =
    VoidTy
  | VoidPtrTy
  | SizeTy
  | BuiltinTy string
  | TagDeclTy string
  | AddrSpaceQualTy QualType nat
  | PointerTy QualType

datatype CallingConv =
    CC_C
  | CC_Swift
  | CC_SwiftAsync
  | CC_OpenCLKernel
  | CC_SpirFunction
  | CC_Other string

datatype cir_CallingConv =
    cir_C
  | cir_SpirKernel
  | cir_SpirFunction
  | cir_OpenCLKernel
  | cir_PTXKernel

text \<open>\<^verbatim>\<open>FunctionType::ExtInfo\<close>: the properties of a function type that \<^verbatim>\<open>create\<close>
  copies into the descriptor.\<close>

record ExtInfo =
  getCC :: CallingConv
  getNoReturn :: bool
  getProducesResult :: bool
  getNoCallerSavedRegs :: bool
  getNoCfCheck :: bool
  getCmseNSCall :: bool
  getHasRegParm :: bool
  getRegParm :: nat

text \<open>\<^verbatim>\<open>FunctionProtoType::ExtParameterInfo\<close>; \<^verbatim>\<open>ExtParameterInfo{}\<close> is the
  record with every flag off.\<close>

record ExtParameterInfo =
  hasPassObjectSize :: bool
  isNoEscape :: bool
  isConsumed :: bool

definition default_ExtParameterInfo :: ExtParameterInfo where
  "default_ExtParameterInfo =
     \<lparr>hasPassObjectSize = False, isNoEscape = False, isConsumed = False\<rparr>"

text \<open>Modelled from the spec: the required-arguments marker \<^verbatim>\<open>RequiredArgs\<close>, declared in
  \<^verbatim>\<open>CIRGenFunctionInfo.h\<close>: "all arguments required" (non-variadic), written
  \<^verbatim>\<open>RequiredArgs::All\<close> in the source, or "first K required, rest optional" (K \<ge> 0),
  written \<^verbatim>\<open>RequiredArgs(K)\<close>. CIRGenCall.cpp builds these two forms only;
  \<^verbatim>\<open>allowsOptionalArgs\<close> tells them apart.\<close>

datatype RequiredArgs =
    RequiredArgs_All
  | RequiredArgs nat

fun allowsOptionalArgs :: "RequiredArgs \<Rightarrow> bool" where
  "allowsOptionalArgs RequiredArgs_All = False"
| "allowsOptionalArgs (RequiredArgs n) = True"

subsection \<open>The signature descriptor and its factory\<close>

text \<open>\<^verbatim>\<open>CIRGenFunctionInfo\<close>. Its trailing storage holds the return type in slot 0, the
  \<open>NumArgs\<close> argument types after it, and then the extended parameter infos; the
  record keeps the three parts as three fields.\<close>

record CIRGenFunctionInfo =
  CallingConvention :: cir_CallingConv
  EffectiveCallingConvention :: cir_CallingConv
  ASTCallingConvention :: CallingConv
  InstanceMethod :: bool
  ChainCall :: bool
  CmseNSCall :: bool
  NoReturn :: bool
  ReturnsRetained :: bool
  NoCallerSavedRegs :: bool
  NoCfCheck :: bool
  Required :: RequiredArgs
  HasRegParm :: bool
  RegParm :: nat
  ArgRecord :: "string option"
  ArgRecordAlign :: nat
  NumArgs :: nat
  HasExtParameterInfos :: bool
  ReturnTypeSlot :: QualType
  ArgTypeSlots :: "QualType list"
  ExtParameterInfosBuffer :: "ExtParameterInfo list"

text \<open>\<^verbatim>\<open>CIRGenFunctionInfo::create\<close> (lines 41-79). The second assertion calls
  \<^verbatim>\<open>getNumRequiredArgs\<close> only when optional arguments are allowed.\<close>

definition create ::
  "cir_CallingConv \<Rightarrow> bool \<Rightarrow> bool \<Rightarrow> ExtInfo \<Rightarrow> ExtParameterInfo list \<Rightarrow> QualType \<Rightarrow>
   QualType list \<Rightarrow> RequiredArgs \<Rightarrow> fault + CIRGenFunctionInfo" where
  "create cirCC instanceMethod chainCall info paramInfos resultType argTypes required =
     (if \<not> (paramInfos = [] \<or> length paramInfos = length argTypes) then
        Inl (AssertionFailed ''paramInfos.empty() || paramInfos.size() == argTypes.size()'')
      else if \<not> (case required of
                   RequiredArgs_All \<Rightarrow> True
                 | RequiredArgs n \<Rightarrow> n \<le> length argTypes) then
        Inl (AssertionFailed
          ''!required.allowsOptionalArgs() || required.getNumRequiredArgs() <= argTypes.size()'')
      else
        Inr \<lparr>CallingConvention = cirCC,
             EffectiveCallingConvention = cirCC,
             ASTCallingConvention = getCC info,
             InstanceMethod = instanceMethod,
             ChainCall = chainCall,
             CmseNSCall = getCmseNSCall info,
             NoReturn = getNoReturn info,
             ReturnsRetained = getProducesResult info,
             NoCallerSavedRegs = getNoCallerSavedRegs info,
             NoCfCheck = getNoCfCheck info,
             Required = required,
             HasRegParm = getHasRegParm info,
             RegParm = getRegParm info,
             ArgRecord = None,
             ArgRecordAlign = 0,
             NumArgs = length argTypes,
             HasExtParameterInfos = (paramInfos \<noteq> []),
             ReturnTypeSlot = resultType,
             ArgTypeSlots = argTypes,
             ExtParameterInfosBuffer = paramInfos\<rparr>)"

text \<open>Modelled from the spec: the accessors of the descriptor that CIRGenCall.cpp calls,
  declared in \<^verbatim>\<open>CIRGenFunctionInfo.h\<close>. The descriptor holds a "required-argument count
  (supports 'first N are required, rest optional' for variadics)", and the required
  arguments are "the prefix of a variadic argument list that is mandatory":
  \<^verbatim>\<open>isVariadic\<close> is \<^verbatim>\<open>Required.allowsOptionalArgs()\<close>, \<^verbatim>\<open>getNumRequiredArgs\<close> is
  the marker's count for a variadic descriptor and \<^verbatim>\<open>arg_size()\<close> otherwise, and
  \<^verbatim>\<open>requiredArguments\<close> is the range of the first \<^verbatim>\<open>getNumRequiredArgs()\<close>
  argument types. \<^verbatim>\<open>create\<close> asserts that the count of a variadic descriptor is at
  most the number of argument types, so the range is within them.\<close>

definition getReturnType :: "CIRGenFunctionInfo \<Rightarrow> QualType" where
  "getReturnType FI = ReturnTypeSlot FI"

definition arg_size :: "CIRGenFunctionInfo \<Rightarrow> nat" where
  "arg_size FI = NumArgs FI"

definition isVariadic :: "CIRGenFunctionInfo \<Rightarrow> bool" where
  "isVariadic FI = allowsOptionalArgs (Required FI)"

definition getNumRequiredArgs :: "CIRGenFunctionInfo \<Rightarrow> nat" where
  "getNumRequiredArgs FI =
     (case Required FI of RequiredArgs n \<Rightarrow> n | RequiredArgs_All \<Rightarrow> arg_size FI)"

definition requiredArguments :: "CIRGenFunctionInfo \<Rightarrow> QualType list" where
  "requiredArguments FI = take (getNumRequiredArgs FI) (ArgTypeSlots FI)"

subsection \<open>Function types and declarations\<close>

text \<open>\<^verbatim>\<open>FunctionProtoType\<close>: a function type with a parameter list. The exception
  specification is observed through the two queries CIRGenCall.cpp makes of it:
  \<^verbatim>\<open>isUnresolvedExceptionSpec(getExceptionSpecType())\<close> and \<^verbatim>\<open>isNothrow()\<close>.
  \<^verbatim>\<open>getExtParameterInfos()\<close> is empty unless \<^verbatim>\<open>hasExtParameterInfos()\<close>.\<close>

record FunctionProtoType =
  proto_ReturnType :: QualType
  proto_ParamTypes :: "QualType list"
  proto_isVariadic :: bool
  proto_ExtInfo :: ExtInfo
  hasExtParameterInfos :: bool
  proto_ExtParameterInfos :: "ExtParameterInfo list"
  isUnresolvedExceptionSpec :: bool
  isNothrow :: bool

text \<open>\<^verbatim>\<open>FunctionNoProtoType\<close>: an unprototyped function type (no known parameter list).\<close>

record FunctionNoProtoType =
  noproto_ReturnType :: QualType
  noproto_ExtInfo :: ExtInfo

datatype FunctionType =
    FunctionProto FunctionProtoType
  | FunctionNoProto FunctionNoProtoType

fun fn_ReturnType :: "FunctionType \<Rightarrow> QualType" where
  "fn_ReturnType (FunctionProto P) = proto_ReturnType P"
| "fn_ReturnType (FunctionNoProto N) = noproto_ReturnType N"

fun fn_ExtInfo :: "FunctionType \<Rightarrow> ExtInfo" where
  "fn_ExtInfo (FunctionProto P) = proto_ExtInfo P"
| "fn_ExtInfo (FunctionNoProto N) = noproto_ExtInfo N"

definition getNumParams :: "FunctionProtoType \<Rightarrow> nat" where
  "getNumParams P = length (proto_ParamTypes P)"

definition getExtParameterInfos :: "FunctionProtoType \<Rightarrow> ExtParameterInfo list" where
  "getExtParameterInfos P = (if hasExtParameterInfos P then proto_ExtParameterInfos P else [])"

datatype Attr =
    NoThrowAttr
  | ConstAttr
  | PureAttr
  | NoAliasAttr
  | NoMergeAttr
  | OptimizeNoneAttr
  | AllocSizeAttr
  | OpenCLKernelAttr
  | CUDAGlobalAttr
  | ArmLocallyStreamingAttr
  | AlwaysInlineAttr
  | TargetAttr
  | NotTailCalledAttr
  | ErrorAttr
  | StrictFPAttr
  | CFGuardAttr
  | NoBuiltinAttr

datatype CXXCtorType =
    Ctor_Complete
  | Ctor_Base
  | Ctor_Comdat
  | Ctor_CopyingClosure
  | Ctor_DefaultClosure

text \<open>\<^verbatim>\<open>InheritedConstructor\<close>, observed through
  \<^verbatim>\<open>getShadowDecl()->constructsVirtualBase()\<close>.\<close>

record InheritedConstructor =
  constructsVirtualBase :: bool

datatype CXXMethodKind =
    OrdinaryMethod
  | CXXConstructorDecl "InheritedConstructor option"
  | CXXDestructorDecl

text \<open>What a \<^verbatim>\<open>FunctionDecl\<close> has when it is a \<^verbatim>\<open>CXXMethodDecl\<close>: the record it
  is a member of (\<^verbatim>\<open>getParent()\<close>), and the answers of \<^verbatim>\<open>isInstance()\<close>,
  \<^verbatim>\<open>isVirtual()\<close> and \<^verbatim>\<open>getMethodQualifiers().getAddressSpace()\<close>.\<close>

record CXXMethodDecl =
  getParent :: "string option"
  isInstance :: bool
  isVirtual :: bool
  getAddressSpace :: nat
  methodKind :: CXXMethodKind

text \<open>\<^verbatim>\<open>FunctionDecl\<close>; \<open>asCXXMethodDecl\<close> is \<^verbatim>\<open>dyn_cast<CXXMethodDecl>\<close>,
  \<open>fd_attrs\<close> are the attributes \<^verbatim>\<open>hasAttr\<close> finds, and \<open>isOperatorNew\<close> says that
  the declared name is the overloaded operator \<^verbatim>\<open>new\<close> or \<^verbatim>\<open>new[]\<close>.\<close>

record FunctionDecl =
  getType :: FunctionType
  asCXXMethodDecl :: "CXXMethodDecl option"
  fd_attrs :: "Attr list"
  isNoReturn :: bool
  isReplaceableGlobalAllocationFunction :: bool
  isOperatorNew :: bool

record GlobalDecl =
  getDecl :: FunctionDecl
  getCtorType :: CXXCtorType

datatype FnInfoOpts =
    FnInfoOpts_None
  | IsInstanceMethod
  | IsChainCall

subsection \<open>The collaborators of the arrangers\<close>

record AddedStructorArgCounts =
  Prefix :: nat
  Suffix :: nat

text \<open>The C++ ABI policy object (\<^verbatim>\<open>CIRGenCXXABI\<close>), with the queries the arrangers make.
  \<^verbatim>\<open>buildStructorSignature\<close> extends the argument types in place and returns the
  counts of what it added; here it returns both.\<close>

record CIRGenCXXABI =
  buildStructorSignature ::
    "GlobalDecl \<Rightarrow> QualType list \<Rightarrow> AddedStructorArgCounts \<times> QualType list"
  HasThisReturn :: "GlobalDecl \<Rightarrow> bool"
  hasMostDerivedReturn :: "GlobalDecl \<Rightarrow> bool"
  getThisArgumentTypeForMethod :: "FunctionDecl \<Rightarrow> string option"

text \<open>The part of \<^verbatim>\<open>CIRGenTypes\<close> the arrangers read: the ABI object, the target's
  \<^verbatim>\<open>getCXXABI().hasConstructorVariants()\<close>, the translation of calling conventions
  and the target hook \<^verbatim>\<open>setCUDAKernelCallingConvention\<close>.\<close>

record CIRGenTypes =
  TheCXXABI :: CIRGenCXXABI
  hasConstructorVariants :: bool
  ClangCallConvToCIRCallConv :: "CallingConv \<Rightarrow> cir_CallingConv"
  targetSetCUDAKernelCallingConvention :: "FunctionProtoType \<Rightarrow> FunctionProtoType"

subsection \<open>The signature arrangers\<close>

text \<open>Modelled from the spec: \<^verbatim>\<open>RequiredArgs::forPrototypePlus\<close>, declared in
  \<^verbatim>\<open>CIRGenFunctionInfo.h\<close>. "Variadics: required-argument count = number of formal
  (non-variadic) parameters, including any already-inserted implicit/prefix arguments";
  a parameter that carries its size counts twice ("insert a synthetic size-typed argument
  immediately after it"). A prototype that is not variadic requires all arguments.\<close>

definition forPrototypePlus :: "FunctionProtoType \<Rightarrow> nat \<Rightarrow> RequiredArgs" where
  "forPrototypePlus prototype additional =
     (if \<not> proto_isVariadic prototype then RequiredArgs_All
      else RequiredArgs (getNumParams prototype + additional
             + length (filter hasPassObjectSize (getExtParameterInfos prototype))))"

text \<open>Modelled from the spec: the member \<^verbatim>\<open>CIRGenTypes::arrangeCIRFunctionInfo\<close>, defined in
  \<^verbatim>\<open>CIRGenTypes.cpp\<close>. The descriptor is "constructed once via a single factory"
  (\<^verbatim>\<open>create\<close>) from the arranged parts; the cache of descriptors is left out
  ("an implementation should memoize by this key ..., though correctness does not require
  it").\<close>

definition arrangeCIRFunctionInfo ::
  "CIRGenTypes \<Rightarrow> QualType \<Rightarrow> FnInfoOpts \<Rightarrow> QualType list \<Rightarrow> ExtInfo \<Rightarrow>
   ExtParameterInfo list \<Rightarrow> RequiredArgs \<Rightarrow> fault + CIRGenFunctionInfo" where
  "arrangeCIRFunctionInfo CGT resultType opts argTypes info paramInfos required =
     create (ClangCallConvToCIRCallConv CGT (getCC info)) (opts = IsInstanceMethod)
       (opts = IsChainCall) info paramInfos resultType argTypes required"

text \<open>\<^verbatim>\<open>std::vector::resize\<close> on a list of parameter infos.\<close>

definition resize :: "nat \<Rightarrow> ExtParameterInfo list \<Rightarrow> ExtParameterInfo list" where
  "resize n xs = take n xs @ replicate (n - length xs) default_ExtParameterInfo"

text \<open>The loop of \<^verbatim>\<open>addExtParameterInfosForCall\<close> (lines 942-947).\<close>

fun addProtoInfos :: "ExtParameterInfo list \<Rightarrow> ExtParameterInfo list" where
  "addProtoInfos [] = []"
| "addProtoInfos (ParamInfo # rest) =
     (if hasPassObjectSize ParamInfo
      then ParamInfo # default_ExtParameterInfo # addProtoInfos rest
      else ParamInfo # addProtoInfos rest)"

text \<open>\<^verbatim>\<open>addExtParameterInfosForCall\<close> (lines 929-953).\<close>

definition addExtParameterInfosForCall ::
  "ExtParameterInfo list \<Rightarrow> FunctionProtoType \<Rightarrow> nat \<Rightarrow> nat \<Rightarrow> fault + ExtParameterInfo list"
  where
  "addExtParameterInfosForCall paramInfos proto prefixArgs totalArgs =
     (if \<not> hasExtParameterInfos proto then
        Inl (AssertionFailed ''proto->hasExtParameterInfos()'')
      else if \<not> length paramInfos \<le> prefixArgs then
        Inl (AssertionFailed ''paramInfos.size() <= prefixArgs'')
      else if \<not> getNumParams proto + prefixArgs \<le> totalArgs then
        Inl (AssertionFailed ''proto->getNumParams() + prefixArgs <= totalArgs'')
      else
        let paramInfos1 = resize prefixArgs paramInfos;
            paramInfos2 = paramInfos1 @ addProtoInfos (getExtParameterInfos proto)
        in if \<not> length paramInfos2 \<le> totalArgs then
             Inl (AssertionFailed ''Did we forget to insert pass_object_size args?'')
           else Inr (resize totalArgs paramInfos2))"

text \<open>The loop of \<^verbatim>\<open>appendParameterTypes\<close> (lines 978-982): each parameter type, followed
  by the size type when the parameter passes its object size. The two lists have the same
  length there (the assertion of line 977).\<close>

fun appendParams :: "QualType list \<Rightarrow> ExtParameterInfo list \<Rightarrow> QualType list" where
  "appendParams (T # Ts) (E # Es) =
     (if hasPassObjectSize E then T # SizeTy # appendParams Ts Es
      else T # appendParams Ts Es)"
| "appendParams Ts Es = []"

text \<open>\<^verbatim>\<open>appendParameterTypes\<close> (lines 958-986); it returns the extended prefix and the
  parameter infos it updates in place.\<close>

definition appendParameterTypes ::
  "QualType list \<Rightarrow> ExtParameterInfo list \<Rightarrow> FunctionProtoType \<Rightarrow>
   fault + (QualType list \<times> ExtParameterInfo list)" where
  "appendParameterTypes prefix paramInfos FPT =
     (if \<not> hasExtParameterInfos FPT then
        (if paramInfos \<noteq> [] then
           Inl (AssertionFailed ''We have paramInfos, but the prototype doesn't?'')
         else Inr (prefix @ proto_ParamTypes FPT, paramInfos))
      else
        let PrefixSize = length prefix;
            ExtInfos = getExtParameterInfos FPT
        in if length ExtInfos \<noteq> getNumParams FPT then
             Inl (AssertionFailed ''ExtInfos.size() == FPT->getNumParams()'')
           else
             let prefix1 = prefix @ appendParams (proto_ParamTypes FPT) ExtInfos
             in (case addExtParameterInfosForCall paramInfos FPT PrefixSize (length prefix1) of
                   Inl e \<Rightarrow> Inl e
                 | Inr paramInfos1 \<Rightarrow> Inr (prefix1, paramInfos1)))"

text \<open>\<^verbatim>\<open>GetFormalType\<close> (lines 922-926): the prototype of a method;
  \<^verbatim>\<open>getAs<FunctionProtoType>\<close> is null for an unprototyped type, and the callers
  dereference it.\<close>

definition GetFormalType :: "FunctionDecl \<Rightarrow> fault + FunctionProtoType" where
  "GetFormalType MD =
     (case getType MD of
        FunctionProto P \<Rightarrow> Inr P
      | FunctionNoProto N \<Rightarrow> Inl (Unreachable ''null FunctionProtoType''))"

text \<open>\<^verbatim>\<open>CIRGenTypes::DeriveThisType\<close> (lines 1045-1057).\<close>

definition DeriveThisType :: "string option \<Rightarrow> CXXMethodDecl option \<Rightarrow> fault + QualType" where
  "DeriveThisType RD MD =
     (case RD of
        None \<Rightarrow> Inl (AssertionFailed ''CXXMethodDecl NYI'')
      | Some rd \<Rightarrow>
          (case MD of
             None \<Rightarrow> Inr (PointerTy (TagDeclTy rd))
           | Some md \<Rightarrow> Inr (PointerTy (AddrSpaceQualTy (TagDeclTy rd) (getAddressSpace md)))))"

text \<open>The static \<^verbatim>\<open>arrangeCIRFunctionInfo\<close> (lines 1061-1073), on top of the implicit
  parameters already in \<open>prefix\<close>.\<close>

definition arrangeCIRFunctionInfo_prefix ::
  "CIRGenTypes \<Rightarrow> FnInfoOpts \<Rightarrow> QualType list \<Rightarrow> FunctionProtoType \<Rightarrow>
   fault + CIRGenFunctionInfo" where
  "arrangeCIRFunctionInfo_prefix CGT instanceMethod prefix FTP =
     (let Required = forPrototypePlus FTP (length prefix)
      in case appendParameterTypes prefix [] FTP of
           Inl e \<Rightarrow> Inl e
         | Inr (prefix1, paramInfos) \<Rightarrow>
             arrangeCIRFunctionInfo CGT (proto_ReturnType FTP) instanceMethod prefix1
               (proto_ExtInfo FTP) paramInfos Required)"

text \<open>\<^verbatim>\<open>CIRGenTypes::arrangeFreeFunctionType(CanQual<FunctionProtoType>)\<close>
  (lines 1077-1081).\<close>

definition arrangeFreeFunctionType ::
  "CIRGenTypes \<Rightarrow> FunctionProtoType \<Rightarrow> fault + CIRGenFunctionInfo" where
  "arrangeFreeFunctionType CGT FTP = arrangeCIRFunctionInfo_prefix CGT FnInfoOpts_None [] FTP"

text \<open>\<^verbatim>\<open>CIRGenTypes::arrangeFreeFunctionType(CanQual<FunctionNoProtoType>)\<close>
  (lines 1085-1092).\<close>

definition arrangeFreeFunctionType_NoProto ::
  "CIRGenTypes \<Rightarrow> FunctionNoProtoType \<Rightarrow> fault + CIRGenFunctionInfo" where
  "arrangeFreeFunctionType_NoProto CGT FTNP =
     arrangeCIRFunctionInfo CGT (noproto_ReturnType FTNP) FnInfoOpts_None []
       (noproto_ExtInfo FTNP) [] (RequiredArgs 0)"

text \<open>\<^verbatim>\<open>CIRGenTypes::arrangeCXXMethodType\<close> (lines 1342-1354).\<close>

definition arrangeCXXMethodType ::
  "CIRGenTypes \<Rightarrow> string option \<Rightarrow> FunctionProtoType \<Rightarrow> CXXMethodDecl option \<Rightarrow>
   fault + CIRGenFunctionInfo" where
  "arrangeCXXMethodType CGT RD FTP MD =
     (case DeriveThisType RD MD of
        Inl e \<Rightarrow> Inl e
      | Inr thisTy \<Rightarrow> arrangeCIRFunctionInfo_prefix CGT IsChainCall [thisTy] FTP)"

text \<open>\<^verbatim>\<open>setCUDAKernelCallingConvention\<close> (lines 1307-1314).\<close>

definition setCUDAKernelCallingConvention ::
  "CIRGenTypes \<Rightarrow> FunctionDecl \<Rightarrow> FunctionProtoType \<Rightarrow> FunctionProtoType" where
  "setCUDAKernelCallingConvention CGT FD FTy =
     (if CUDAGlobalAttr \<in> set (fd_attrs FD) then targetSetCUDAKernelCallingConvention CGT FTy
      else FTy)"

text \<open>\<^verbatim>\<open>CIRGenTypes::arrangeCXXMethodDeclaration\<close> (lines 1319-1335); \<open>FD\<close> is the
  declaration and \<open>MD\<close> what it has as a method.\<close>

definition arrangeCXXMethodDeclaration ::
  "CIRGenTypes \<Rightarrow> FunctionDecl \<Rightarrow> CXXMethodDecl \<Rightarrow> fault + CIRGenFunctionInfo" where
  "arrangeCXXMethodDeclaration CGT FD MD =
     (if (case methodKind MD of CXXConstructorDecl i \<Rightarrow> True | _ \<Rightarrow> False) then
        Inl (AssertionFailed ''wrong method for constructors!'')
      else if methodKind MD = CXXDestructorDecl then
        Inl (AssertionFailed ''wrong method for destructors!'')
      else
        case GetFormalType FD of
          Inl e \<Rightarrow> Inl e
        | Inr FT \<Rightarrow>
            (let prototype = setCUDAKernelCallingConvention CGT FD FT
             in if isInstance MD then
                  arrangeCXXMethodType CGT (getThisArgumentTypeForMethod (TheCXXABI CGT) FD)
                    prototype (Some MD)
                else arrangeFreeFunctionType CGT prototype))"

text \<open>\<^verbatim>\<open>CIRGenTypes::arrangeFunctionDeclaration\<close> (lines 1358-1378).\<close>

definition arrangeFunctionDeclaration ::
  "CIRGenTypes \<Rightarrow> FunctionDecl \<Rightarrow> fault + CIRGenFunctionInfo" where
  "arrangeFunctionDeclaration CGT FD =
     (case (case asCXXMethodDecl FD of
              Some MD \<Rightarrow> if isInstance MD then Some MD else None
            | None \<Rightarrow> None) of
        Some MD \<Rightarrow> arrangeCXXMethodDeclaration CGT FD MD
      | None \<Rightarrow>
          (case getType FD of
             FunctionNoProto noProto \<Rightarrow>
               arrangeCIRFunctionInfo CGT (noproto_ReturnType noProto) FnInfoOpts_None []
                 (noproto_ExtInfo noProto) [] RequiredArgs_All
           | FunctionProto FTy \<Rightarrow> arrangeFreeFunctionType CGT FTy))"

text \<open>\<^verbatim>\<open>CIRGenTypes::inheritingCtorHasParams\<close> (lines 1145-1153).\<close>

definition inheritingCtorHasParams ::
  "CIRGenTypes \<Rightarrow> InheritedConstructor \<Rightarrow> CXXCtorType \<Rightarrow> bool" where
  "inheritingCtorHasParams CGT Inherited Type =
     (Type = Ctor_Complete \<or> \<not> constructsVirtualBase Inherited \<or> \<not> hasConstructorVariants CGT)"

text \<open>\<^verbatim>\<open>CIRGenTypes::arrangeCXXStructorDeclaration\<close> (lines 988-1039).
  \<^verbatim>\<open>cast<CXXMethodDecl>\<close> asserts that the declaration is a method. When the
  parameter infos are not empty the function pads them for the arguments the ABI added and
  then stops at \<^verbatim>\<open>assert(false)\<close>; the padding is never observed.\<close>

definition arrangeCXXStructorDeclaration ::
  "CIRGenTypes \<Rightarrow> GlobalDecl \<Rightarrow> fault + CIRGenFunctionInfo" where
  "arrangeCXXStructorDeclaration CGT GD =
     (case asCXXMethodDecl (getDecl GD) of
        None \<Rightarrow> Inl (AssertionFailed ''cast<CXXMethodDecl>'')
      | Some MD \<Rightarrow>
     (case DeriveThisType (getParent MD) (Some MD) of
        Inl e \<Rightarrow> Inl e
      | Inr thisTy \<Rightarrow>
     (let PassParams =
            (case methodKind MD of
               CXXConstructorDecl (Some Inherited) \<Rightarrow>
                 inheritingCtorHasParams CGT Inherited (getCtorType GD)
             | _ \<Rightarrow> True)
      in case GetFormalType (getDecl GD) of
        Inl e \<Rightarrow> Inl e
      | Inr FTP \<Rightarrow>
     (case (if PassParams then appendParameterTypes [thisTy] [] FTP else Inr ([thisTy], [])) of
        Inl e \<Rightarrow> Inl e
      | Inr (argTypes0, paramInfos) \<Rightarrow>
     (let (AddedArgs, argTypes) = buildStructorSignature (TheCXXABI CGT) GD argTypes0
      in if paramInfos \<noteq> [] then
           Inl (AssertionFailed ''Please sent PR with a test and remove this'')
         else
           let required =
                 (if PassParams \<and> proto_isVariadic FTP then RequiredArgs (length argTypes)
                  else RequiredArgs_All);
               extInfo = proto_ExtInfo FTP;
               resultType =
                 (if HasThisReturn (TheCXXABI CGT) GD then hd argTypes
                  else if hasMostDerivedReturn (TheCXXABI CGT) GD then VoidPtrTy
                  else VoidTy)
           in if HasThisReturn (TheCXXABI CGT) GD then
                Inl (AssertionFailed ''Please sent PR with a test and remove this'')
              else arrangeCIRFunctionInfo CGT resultType IsInstanceMethod argTypes extInfo
                     paramInfos required)))))"

subsection \<open>Machine types and values\<close>

text \<open>The types of the CIR dialect that CIRGenCall.cpp distinguishes. \<open>NullType\<close> is the
  null \<^verbatim>\<open>mlir::Type\<close> handle; an integer type has a width and a signedness;
  \<^verbatim>\<open>cir::FuncType::get(inputs, result, isVarArg)\<close> is \<open>cir_FuncType\<close>.\<close>

datatype mlir_Type =
    NullType
  | cir_VoidType
  | cir_BoolType
  | cir_IntType nat bool
  | cir_SingleType
  | cir_DoubleType
  | cir_PointerType mlir_Type
  | cir_RecordType string "mlir_Type list"
  | cir_FuncType "mlir_Type list" mlir_Type bool

fun getInputs :: "mlir_Type \<Rightarrow> mlir_Type list" where
  "getInputs (cir_FuncType inputs ret va) = inputs"
| "getInputs T = []"

fun getFuncReturnType :: "mlir_Type \<Rightarrow> mlir_Type" where
  "getFuncReturnType (cir_FuncType inputs ret va) = ret"
| "getFuncReturnType T = NullType"

fun isVarArg :: "mlir_Type \<Rightarrow> bool" where
  "isVarArg (cir_FuncType inputs ret va) = va"
| "isVarArg T = False"

fun isa_RecordType :: "mlir_Type \<Rightarrow> bool" where
  "isa_RecordType (cir_RecordType name members) = True"
| "isa_RecordType T = False"

fun isa_IntType :: "mlir_Type \<Rightarrow> bool" where
  "isa_IntType (cir_IntType width isSigned) = True"
| "isa_IntType T = False"

fun isa_VoidType :: "mlir_Type \<Rightarrow> bool" where
  "isa_VoidType cir_VoidType = True"
| "isa_VoidType T = False"

text \<open>An SSA value is what defines it: a value that exists already (an argument, an
  earlier result) with its type, or the result of an operation the builder created.\<close>

datatype mlir_Value =
    Value string mlir_Type
  | BitcastResult mlir_Value mlir_Type
  | LoadResult mlir_Value mlir_Type
  | CallResult nat mlir_Type

fun value_getType :: "mlir_Value \<Rightarrow> mlir_Type" where
  "value_getType (Value name T) = T"
| "value_getType (BitcastResult V T) = T"
| "value_getType (LoadResult ptr T) = T"
| "value_getType (CallResult n T) = T"

record Address =
  getPointer :: mlir_Value
  getElementType :: mlir_Type
  getAlignment :: nat

datatype RValue =
    RValue_get mlir_Value
  | RValue_getAggregate Address
  | RValue_getComplex mlir_Value mlir_Value
  | UndefRValue QualType

record LValue =
  getAddress :: Address

subsection \<open>Call arguments\<close>

text \<open>Modelled from the spec: \<^verbatim>\<open>CallArg\<close>, declared in \<^verbatim>\<open>CIRGenCall.h\<close>. "Each slot
  is either a simple value, or a value bound to an addressable memory location": the type
  of the argument and either an r-value or an l-value (\<^verbatim>\<open>HasLV\<close>). The accessors
  assert which one is there.\<close>

datatype CallArgValue =
    RV RValue
  | LV LValue

record CallArg =
  Ty :: QualType
  argValue :: CallArgValue

definition hasLValue :: "CallArg \<Rightarrow> bool" where
  "hasLValue A = (case argValue A of LV l \<Rightarrow> True | RV r \<Rightarrow> False)"

definition isAggregate :: "CallArg \<Rightarrow> bool" where
  "isAggregate A =
     (case argValue A of
        LV l \<Rightarrow> True
      | RV r \<Rightarrow> (case r of RValue_getAggregate a \<Rightarrow> True | _ \<Rightarrow> False))"

definition getKnownRValue :: "CallArg \<Rightarrow> fault + RValue" where
  "getKnownRValue A =
     (case argValue A of
        LV l \<Rightarrow> Inl (AssertionFailed ''!HasLV'')
      | RV r \<Rightarrow> Inr r)"

definition getKnownLValue :: "CallArg \<Rightarrow> fault + LValue" where
  "getKnownLValue A =
     (case argValue A of
        LV l \<Rightarrow> Inr l
      | RV r \<Rightarrow> Inl (AssertionFailed ''HasLV''))"

definition getScalarVal :: "RValue \<Rightarrow> fault + mlir_Value" where
  "getScalarVal r =
     (case r of
        RValue_get V \<Rightarrow> Inr V
      | _ \<Rightarrow> Inl (AssertionFailed ''isScalar() && Not a scalar!''))"

definition getAggregateAddress :: "RValue \<Rightarrow> fault + Address" where
  "getAggregateAddress r =
     (case r of
        RValue_getAggregate a \<Rightarrow> Inr a
      | _ \<Rightarrow> Inl (AssertionFailed ''isAggregate() && Not an aggregate!''))"

text \<open>\<^verbatim>\<open>arrangeFreeFunctionLikeCall\<close> (lines 1218-1252).\<close>

definition arrangeFreeFunctionLikeCall ::
  "CIRGenTypes \<Rightarrow> CallArg list \<Rightarrow> FunctionType \<Rightarrow> nat \<Rightarrow> FnInfoOpts \<Rightarrow>
   fault + CIRGenFunctionInfo" where
  "arrangeFreeFunctionLikeCall CGT args fnType numExtraRequiredArgs chainCall =
     (if \<not> length args \<ge> numExtraRequiredArgs then
        Inl (AssertionFailed ''args.size() >= numExtraRequiredArgs'')
      else if \<not> chainCall \<noteq> IsChainCall then
        Inl (AssertionFailed ''Chain call NYI'')
      else
        case (case fnType of
                FunctionProto proto \<Rightarrow>
                  (let required =
                         (if proto_isVariadic proto
                          then forPrototypePlus proto numExtraRequiredArgs
                          else RequiredArgs_All)
                   in if hasExtParameterInfos proto then
                        (case addExtParameterInfosForCall [] proto numExtraRequiredArgs
                                (length args) of
                           Inl e \<Rightarrow> Inl e
                         | Inr paramInfos \<Rightarrow> Inr (required, paramInfos))
                      else Inr (required, []))
              | FunctionNoProto noProto \<Rightarrow> Inr (RequiredArgs (length args), [])) of
          Inl e \<Rightarrow> Inl e
        | Inr (required, paramInfos) \<Rightarrow>
            arrangeCIRFunctionInfo CGT (fn_ReturnType fnType) chainCall (map Ty args)
              (fn_ExtInfo fnType) paramInfos required)"

text \<open>\<^verbatim>\<open>CIRGenTypes::arrangeFreeFunctionCall\<close> (lines 1298-1304).\<close>

definition arrangeFreeFunctionCall ::
  "CIRGenTypes \<Rightarrow> CallArg list \<Rightarrow> FunctionType \<Rightarrow> bool \<Rightarrow> fault + CIRGenFunctionInfo" where
  "arrangeFreeFunctionCall CGT args fnType isChainCall =
     (if isChainCall then Inl (AssertionFailed ''ChainCall NYI'')
      else arrangeFreeFunctionLikeCall CGT args fnType (if isChainCall then 1 else 0)
             (if isChainCall then IsChainCall else FnInfoOpts_None))"

subsection \<open>The machine function type of a descriptor\<close>

text \<open>\<^verbatim>\<open>convertType\<close> is the type-conversion engine, a collaborator defined outside this file.
  Converting a type may construct the machine type of another signature, so it runs in
  the state \<^verbatim>\<open>FunctionsBeingProcessed\<close> (the set of descriptors whose machine type is
  under construction) and may fault. The set holds addresses of descriptors; descriptors
  are unique per signature, so the model holds the descriptors themselves.\<close>

type_synonym FunctionsBeingProcessed = "CIRGenFunctionInfo set"

type_synonym convertType_fn =
  "QualType \<Rightarrow> FunctionsBeingProcessed \<Rightarrow> fault + (mlir_Type \<times> FunctionsBeingProcessed)"

text \<open>The loop of lines 104-105: the required arguments are converted in order.\<close>

fun convertRequiredArguments ::
  "convertType_fn \<Rightarrow> QualType list \<Rightarrow> FunctionsBeingProcessed \<Rightarrow>
   fault + (mlir_Type list \<times> FunctionsBeingProcessed)" where
  "convertRequiredArguments convertType [] S = Inr ([], S)"
| "convertRequiredArguments convertType (argType # rest) S =
     (case convertType argType S of
        Inl e \<Rightarrow> Inl e
      | Inr (T, S1) \<Rightarrow>
          (case convertRequiredArguments convertType rest S1 of
             Inl e \<Rightarrow> Inl e
           | Inr (Ts, S2) \<Rightarrow> Inr (T # Ts, S2)))"

text \<open>\<^verbatim>\<open>CIRGenTypes::GetFunctionType(const CIRGenFunctionInfo &)\<close> (lines 94-114).\<close>

definition GetFunctionType ::
  "convertType_fn \<Rightarrow> CIRGenFunctionInfo \<Rightarrow> FunctionsBeingProcessed \<Rightarrow>
   fault + (mlir_Type \<times> FunctionsBeingProcessed)" where
  "GetFunctionType convertType FI S =
     (if FI \<in> S then Inl (AssertionFailed ''Recursively being processed?'')
      else
        case convertType (getReturnType FI) (insert FI S) of
          Inl e \<Rightarrow> Inl e
        | Inr (resultType, S1) \<Rightarrow>
            (case convertRequiredArguments convertType (requiredArguments FI) S1 of
               Inl e \<Rightarrow> Inl e
             | Inr (ArgTypes, S2) \<Rightarrow>
                 if FI \<notin> S2 then Inl (AssertionFailed ''Not in set?'')
                 else Inr (cir_FuncType ArgTypes
                             (if resultType \<noteq> NullType then resultType else cir_VoidType)
                             (isVariadic FI),
                           S2 - {FI})))"

text \<open>A conversion that constructs no function type: it leaves the set as it is.\<close>

definition pureConvert :: "(QualType \<Rightarrow> mlir_Type) \<Rightarrow> convertType_fn" where
  "pureConvert conv T S = Inr (conv T, S)"

text \<open>A conversion that, for every type, needs the machine type of the signature \<open>FI\<close>:
  what converting a function type that refers to itself comes to.\<close>

definition reenteringConvert :: "convertType_fn \<Rightarrow> CIRGenFunctionInfo \<Rightarrow> convertType_fn" where
  "reenteringConvert convertType FI T S = GetFunctionType convertType FI S"

text \<open>A conversion that needs the machine type of the signature \<open>FI\<close> for the one type
  \<open>T0\<close> and converts every other type with \<open>convertType\<close>: a signature that refers to
  itself through \<open>T0\<close>, which may be its return type or one of its argument types.\<close>

definition reenteringConvertOn ::
  "convertType_fn \<Rightarrow> CIRGenFunctionInfo \<Rightarrow> QualType \<Rightarrow> convertType_fn" where
  "reenteringConvertOn convertType FI T0 T S =
     (if T = T0 then GetFunctionType convertType FI S else convertType T S)"

text \<open>A conversion that is \<open>convertType\<close> while \<open>FI\<close> is in the in-progress set and faults
  when it is not.\<close>

definition whileInProgress :: "convertType_fn \<Rightarrow> CIRGenFunctionInfo \<Rightarrow> convertType_fn" where
  "whileInProgress convertType FI T S =
     (if FI \<in> S then convertType T S else Inl (Unreachable ''not in progress''))"

subsection \<open>Attribute synthesis\<close>

text \<open>The CIR attributes this file creates, with the mnemonic each is filed under.
  \<^verbatim>\<open>mlir::NamedAttrList\<close> is a map from names to attributes; \<^verbatim>\<open>set(name, attr)\<close>
  adds or replaces the entry of the name.\<close>

datatype cir_Attr =
    cir_NoThrowAttr
  | cir_ConvergentAttr
  | cir_OpenCLKernelAttr
  | cir_OpenCLKernelUniformWorkGroupSizeAttr
  | cir_CUDAKernelNameAttr string

fun getMnemonic :: "cir_Attr \<Rightarrow> string" where
  "getMnemonic cir_NoThrowAttr = ''nothrow''"
| "getMnemonic cir_ConvergentAttr = ''convergent''"
| "getMnemonic cir_OpenCLKernelAttr = ''cl.kernel''"
| "getMnemonic cir_OpenCLKernelUniformWorkGroupSizeAttr = ''cl.uniform_work_group_size''"
| "getMnemonic (cir_CUDAKernelNameAttr name) = ''cu.kernel_name''"

type_synonym NamedAttrList = "string \<rightharpoonup> cir_Attr"

definition set_attr :: "NamedAttrList \<Rightarrow> cir_Attr \<Rightarrow> NamedAttrList" where
  "set_attr funcAttrs a = funcAttrs(getMnemonic a \<mapsto> a)"

text \<open>\<^verbatim>\<open>getNamed(name).has_value()\<close>: the list has an attribute of the name.\<close>

definition hasNamed :: "NamedAttrList \<Rightarrow> string \<Rightarrow> bool" where
  "hasNamed funcAttrs name = (funcAttrs name \<noteq> None)"

datatype SideEffect =
    SideEffect_All
  | SideEffect_Pure
  | SideEffect_Const

text \<open>A declaration (\<^verbatim>\<open>Decl\<close>) is a function declaration, a variable declaration or
  something else; the last two are known by their attributes only.\<close>

datatype Decl =
    FunctionDeclD FunctionDecl
  | VarDeclD "Attr list"
  | OtherDeclD "Attr list"

fun hasAttr :: "Decl \<Rightarrow> Attr \<Rightarrow> bool" where
  "hasAttr (FunctionDeclD Fn) A = (A \<in> set (fd_attrs Fn))"
| "hasAttr (VarDeclD attrs) A = (A \<in> set attrs)"
| "hasAttr (OtherDeclD attrs) A = (A \<in> set attrs)"

text \<open>\<^verbatim>\<open>CIRGenCalleeInfo\<close>: the prototype of the callee if there is one, and the
  declaration it was named by if there is one.\<close>

record CIRGenCalleeInfo =
  getCalleeFunctionProtoType :: "FunctionProtoType option"
  getCalleeDecl :: "Decl option"

record LangOptions =
  OpenCLVersion :: nat
  OffloadUniformBlock :: bool
  OpenCL :: bool
  CUDA :: bool
  HIP :: bool
  CUDAIsDevice :: bool
  SYCLIsDevice :: bool
  assumeFunctionsAreConvergent :: bool
  ObjCAutoRefCount :: bool

record CodeGenOptions =
  AssumeSaneOperatorNew :: bool

text \<open>The part of \<^verbatim>\<open>CIRGenModule\<close> that attribute synthesis reads; \<^verbatim>\<open>getMangledName\<close>
  is the name mangler, here for the kernel reference of a declaration.\<close>

record CIRGenModule =
  getLangOpts :: LangOptions
  getCodeGenOpts :: CodeGenOptions
  getMangledName :: "Decl \<Rightarrow> string"

text \<open>\<^verbatim>\<open>AddAttributesFromFunctionProtoType\<close> (lines 156-168).\<close>

definition AddAttributesFromFunctionProtoType ::
  "NamedAttrList \<Rightarrow> FunctionProtoType option \<Rightarrow> NamedAttrList" where
  "AddAttributesFromFunctionProtoType FuncAttrs FPT =
     (case FPT of
        None \<Rightarrow> FuncAttrs
      | Some P \<Rightarrow>
          if \<not> isUnresolvedExceptionSpec P \<and> isNothrow P
          then set_attr FuncAttrs cir_NoThrowAttr
          else FuncAttrs)"

text \<open>The static \<^verbatim>\<open>getTrivialDefaultFunctionAttributes\<close> (lines 1411-1437).\<close>

definition getTrivialDefaultFunctionAttributes ::
  "string \<Rightarrow> bool \<Rightarrow> CodeGenOptions \<Rightarrow> LangOptions \<Rightarrow> bool \<Rightarrow> NamedAttrList \<Rightarrow>
   fault + NamedAttrList" where
  "getTrivialDefaultFunctionAttributes name hasOptnone codeGenOpts langOpts attrOnCallSite
     funcAttrs =
     (let funcAttrs1 =
            (if assumeFunctionsAreConvergent langOpts
             then set_attr funcAttrs cir_ConvergentAttr else funcAttrs)
      in if SYCLIsDevice langOpts then Inl (Unreachable ''NYI'')
         else if OpenCL langOpts \<or> ((CUDA langOpts \<or> HIP langOpts) \<and> CUDAIsDevice langOpts)
         then Inr (set_attr funcAttrs1 cir_NoThrowAttr)
         else Inr funcAttrs1)"

text \<open>\<^verbatim>\<open>CIRGenModule::getDefaultFunctionAttributes\<close> (lines 1447-1457), through the
  member \<^verbatim>\<open>getTrivialDefaultFunctionAttributes\<close> (lines 1439-1445). Nothing is added
  yet for a definition (\<^verbatim>\<open>!attrOnCallSite\<close>).\<close>

definition getDefaultFunctionAttributes ::
  "CIRGenModule \<Rightarrow> string \<Rightarrow> bool \<Rightarrow> bool \<Rightarrow> NamedAttrList \<Rightarrow> fault + NamedAttrList" where
  "getDefaultFunctionAttributes CGM name hasOptnone attrOnCallSite funcAttrs =
     getTrivialDefaultFunctionAttributes name hasOptnone (getCodeGenOpts CGM) (getLangOpts CGM)
       attrOnCallSite funcAttrs"

text \<open>The block of \<^verbatim>\<open>constructAttributeList\<close> for a target that is a function declaration
  (lines 228-249). The call-site test for a replaceable allocation function, the test
  \<^verbatim>\<open>Fn->isNoReturn()\<close> and the no-builtin attribute all guard empty statements
  (\<^verbatim>\<open>; // NoReturn\<close>): each branch leaves the attributes as they are.\<close>

definition attributesOfFunctionDecl ::
  "CIRGenModule \<Rightarrow> bool \<Rightarrow> FunctionDecl \<Rightarrow> NamedAttrList \<Rightarrow> NamedAttrList" where
  "attributesOfFunctionDecl CGM AttrOnCallSite Fn funcAttrs =
     (let funcAttrs1 =
            AddAttributesFromFunctionProtoType funcAttrs
              (case getType Fn of FunctionProto P \<Rightarrow> Some P | FunctionNoProto N \<Rightarrow> None);
          funcAttrs2 =
            (if AttrOnCallSite \<and> isReplaceableGlobalAllocationFunction Fn then
               (if AssumeSaneOperatorNew (getCodeGenOpts CGM) \<and> isOperatorNew Fn
                then funcAttrs1 else funcAttrs1)
             else funcAttrs1);
          IsVirtualCall = (case asCXXMethodDecl Fn of Some MD \<Rightarrow> isVirtual MD | None \<Rightarrow> False)
      in if \<not> (AttrOnCallSite \<and> IsVirtualCall) then
           (if isNoReturn Fn then funcAttrs2 else funcAttrs2)
         else funcAttrs2)"

text \<open>The block for a target that is an OpenCL kernel (lines 277-296).\<close>

definition attributesOfOpenCLKernel :: "LangOptions \<Rightarrow> NamedAttrList \<Rightarrow> NamedAttrList" where
  "attributesOfOpenCLKernel langOpts funcAttrs =
     (let funcAttrs1 = set_attr funcAttrs cir_OpenCLKernelAttr
      in if OpenCLVersion langOpts \<le> 120 then
           set_attr funcAttrs1 cir_OpenCLKernelUniformWorkGroupSizeAttr
         else if OffloadUniformBlock langOpts then
           set_attr funcAttrs1 cir_OpenCLKernelUniformWorkGroupSizeAttr
         else funcAttrs1)"

text \<open>\<^verbatim>\<open>CIRGenModule::constructAttributeList\<close> (lines 187-317). It returns the attributes,
  the calling convention and the side-effect class it writes through its reference
  parameters. The assertion \<^verbatim>\<open>!cir::MissingFeatures::CUDA()\<close> of line 300 holds
  (the feature flags are constant \<^verbatim>\<open>false\<close>); the branches for \<^verbatim>\<open>NoMergeAttr\<close>,
  \<^verbatim>\<open>NoAliasAttr\<close>, \<^verbatim>\<open>AllocSizeAttr\<close> and \<^verbatim>\<open>ArmLocallyStreamingAttr\<close> are empty.\<close>

definition constructAttributeList ::
  "CIRGenModule \<Rightarrow> string \<Rightarrow> CIRGenFunctionInfo \<Rightarrow> CIRGenCalleeInfo \<Rightarrow> NamedAttrList \<Rightarrow>
   bool \<Rightarrow> bool \<Rightarrow> fault + (NamedAttrList \<times> cir_CallingConv \<times> SideEffect)" where
  "constructAttributeList CGM Name FI CalleeInfo funcAttrs AttrOnCallSite IsThunk =
     (let callingConv = EffectiveCallingConvention FI;
          funcAttrs1 =
            AddAttributesFromFunctionProtoType funcAttrs (getCalleeFunctionProtoType CalleeInfo)
      in case getCalleeDecl CalleeInfo of
           None \<Rightarrow>
             (case getDefaultFunctionAttributes CGM Name False AttrOnCallSite funcAttrs1 of
                Inl e \<Rightarrow> Inl e
              | Inr funcAttrs2 \<Rightarrow> Inr (funcAttrs2, callingConv, SideEffect_All))
         | Some TargetDecl \<Rightarrow>
             (let funcAttrs2 =
                    (if hasAttr TargetDecl NoThrowAttr then set_attr funcAttrs1 cir_NoThrowAttr
                     else funcAttrs1);
                  funcAttrs3 =
                    (case TargetDecl of
                       FunctionDeclD Fn \<Rightarrow> attributesOfFunctionDecl CGM AttrOnCallSite Fn funcAttrs2
                     | _ \<Rightarrow> funcAttrs2);
                  sideEffect =
                    (if hasAttr TargetDecl ConstAttr then SideEffect_Const
                     else if hasAttr TargetDecl PureAttr then SideEffect_Pure
                     else SideEffect_All);
                  HasOptnone = hasAttr TargetDecl OptimizeNoneAttr;
                  funcAttrs4 =
                    (if hasAttr TargetDecl OpenCLKernelAttr
                     then attributesOfOpenCLKernel (getLangOpts CGM) funcAttrs3
                     else funcAttrs3);
                  funcAttrs5 =
                    (if CUDA (getLangOpts CGM) \<and> \<not> CUDAIsDevice (getLangOpts CGM)
                        \<and> hasAttr TargetDecl CUDAGlobalAttr
                     then set_attr funcAttrs4
                            (cir_CUDAKernelNameAttr (getMangledName CGM TargetDecl))
                     else funcAttrs4)
              in case getDefaultFunctionAttributes CGM Name HasOptnone AttrOnCallSite
                        funcAttrs5 of
                   Inl e \<Rightarrow> Inl e
                 | Inr funcAttrs6 \<Rightarrow> Inr (funcAttrs6, callingConv, sideEffect)))"

subsection \<open>The builder\<close>

text \<open>Where the builder inserts: a region of the function, and in it either the running
  position (\<open>None\<close>) or the place right after the operation that defines a value.\<close>

record InsertPoint =
  ip_region :: nat
  ip_after :: "mlir_Value option"

text \<open>A function operation (\<^verbatim>\<open>cir::FuncOp\<close>): its symbol name, its function type and
  its extra attributes.\<close>

record FuncOp =
  getName :: string
  getFunctionType :: mlir_Type
  getExtraAttrs :: NamedAttrList

text \<open>A call operation as \<^verbatim>\<open>emitCallLikeOp\<close> builds it: a plain call
  (\<^verbatim>\<open>createCallOp\<close>, \<^verbatim>\<open>createIndirectCallOp\<close>) or a call with an unwind edge
  (\<^verbatim>\<open>createTryCallOp\<close>, \<^verbatim>\<open>createIndirectTryCallOp\<close>), direct (a function
  operation) or indirect (a function pointer value and its type).\<close>

datatype CallTarget =
    Direct FuncOp
  | Indirect mlir_Value mlir_Type

record CallLikeOp =
  isTryCall :: bool
  getTarget :: CallTarget
  getArgOperands :: "mlir_Value list"
  getCallingConv :: cir_CallingConv
  getSideEffect :: SideEffect
  getExtraCallAttrs :: NamedAttrList
  getParentRegion :: nat
  getOpResults :: "mlir_Value list"

datatype Operation =
    StoreOp mlir_Value Address
  | LoadOp Address
  | CastOp_bitcast mlir_Value mlir_Type
  | TryOp_synthetic nat
  | YieldOp
  | Call CallLikeOp

text \<open>The state of the builder (\<^verbatim>\<open>CIRGenBuilderTy\<close>, defined outside this file) as far
  as this file drives it: the insertion point, the operations created so far, each with
  the point it was inserted at, the region in which each value is defined, and the next
  unused region. Each \<^verbatim>\<open>create...\<close> primitive inserts its operation at the insertion
  point and returns the value the operation defines.\<close>

record Builder =
  insertionPoint :: InsertPoint
  created :: "(InsertPoint \<times> Operation) list"
  definedIn :: "mlir_Value \<Rightarrow> nat"
  nextRegion :: nat

definition saveInsertionPoint :: "Builder \<Rightarrow> InsertPoint" where
  "saveInsertionPoint B = insertionPoint B"

definition restoreInsertionPoint :: "Builder \<Rightarrow> InsertPoint \<Rightarrow> Builder" where
  "restoreInsertionPoint B ip = B\<lparr>insertionPoint := ip\<rparr>"

definition setInsertionPointAfterValue :: "Builder \<Rightarrow> mlir_Value \<Rightarrow> Builder" where
  "setInsertionPointAfterValue B val =
     B\<lparr>insertionPoint := \<lparr>ip_region = definedIn B val, ip_after = Some val\<rparr>\<rparr>"

definition insert_op :: "Builder \<Rightarrow> Operation \<Rightarrow> Builder" where
  "insert_op B op = B\<lparr>created := created B @ [(insertionPoint B, op)]\<rparr>"

definition createStore :: "Builder \<Rightarrow> mlir_Value \<Rightarrow> Address \<Rightarrow> Builder" where
  "createStore B val dst = insert_op B (StoreOp val dst)"

definition createLoad :: "Builder \<Rightarrow> Address \<Rightarrow> mlir_Value \<times> Builder" where
  "createLoad B addr =
     (LoadResult (getPointer addr) (getElementType addr), insert_op B (LoadOp addr))"

definition createBitcast :: "Builder \<Rightarrow> mlir_Value \<Rightarrow> mlir_Type \<Rightarrow> mlir_Value \<times> Builder" where
  "createBitcast B src newTy = (BitcastResult src newTy, insert_op B (CastOp_bitcast src newTy))"

text \<open>Modelled from the spec: \<^verbatim>\<open>CIRGenBuilderTy::createElementBitCast\<close>, defined in
  \<^verbatim>\<open>CIRGenBuilder.h\<close>. "If the in-memory layout's machine shape differs from the
  coerced parameter shape, reinterpret the address as a pointer to the coerced shape"; for
  an equal shape there is "no bit-reinterpretation step" and the address is returned as
  it is.\<close>

definition createElementBitCast :: "Builder \<Rightarrow> Address \<Rightarrow> mlir_Type \<Rightarrow> Address \<times> Builder" where
  "createElementBitCast B addr destType =
     (if destType = getElementType addr then (addr, B)
      else
        let (ptr, B1) = createBitcast B (getPointer addr) (cir_PointerType destType)
        in (\<lparr>getPointer = ptr, getElementType = destType, getAlignment = getAlignment addr\<rparr>,
            B1))"

subsection \<open>Argument materialisation\<close>

definition getNumInputs :: "mlir_Type \<Rightarrow> nat" where
  "getNumInputs fnTy = length (getInputs fnTy)"

definition getInput :: "mlir_Type \<Rightarrow> nat \<Rightarrow> mlir_Type" where
  "getInput fnTy i = getInputs fnTy ! i"

text \<open>The source address of an aggregate argument (lines 501-502).\<close>

definition aggregateSource :: "CallArg \<Rightarrow> fault + Address" where
  "aggregateSource I =
     (if hasLValue I then
        (case getKnownLValue I of Inl e \<Rightarrow> Inl e | Inr l \<Rightarrow> Inr (getAddress l))
      else
        (case getKnownRValue I of Inl e \<Rightarrow> Inl e | Inr r \<Rightarrow> getAggregateAddress r))"

text \<open>The body of the argument loop of \<^verbatim>\<open>CIRGenFunction::emitCall\<close> (lines 478-539) for
  the argument \<open>I\<close> at position \<open>ArgNo\<close>, whose type in the descriptor is \<open>argQualType\<close>.
  \<open>convertType\<close> is the type conversion and \<open>CIRFuncTy\<close> the machine function type of the
  descriptor. It returns the operand of the call and the builder.\<close>

definition materializeArg ::
  "(QualType \<Rightarrow> mlir_Type) \<Rightarrow> mlir_Type \<Rightarrow> Builder \<Rightarrow> nat \<Rightarrow> CallArg \<Rightarrow> QualType \<Rightarrow>
   fault + (mlir_Value \<times> Builder)" where
  "materializeArg convertType CIRFuncTy B ArgNo I argQualType =
     (let argType = convertType argQualType
      in if \<not> isa_RecordType argType then
           (if isAggregate I then Inl (AssertionFailed ''Aggregate NYI'')
            else
              case getKnownRValue I of
                Inl e \<Rightarrow> Inl e
              | Inr r \<Rightarrow>
                  (case getScalarVal r of
                     Inl e \<Rightarrow> Inl e
                   | Inr V \<Rightarrow>
                       if argType \<noteq> value_getType V \<and> isa_IntType (value_getType V) then
                         Inl (Unreachable ''NYI'')
                       else if ArgNo < getNumInputs CIRFuncTy
                               \<and> value_getType V \<noteq> getInput CIRFuncTy ArgNo then
                         Inr (createBitcast B V (getInput CIRFuncTy ArgNo))
                       else Inr (V, B)))
         else
           (if \<not> isAggregate I then Inl (Unreachable ''NYI'')
            else
              case aggregateSource I of
                Inl e \<Rightarrow> Inl e
              | Inr Src \<Rightarrow>
                  (let STy = argType;
                       SrcTy = getElementType Src
                   in if SrcTy \<noteq> STy then Inl (Unreachable ''NYI'')
                      else
                        let (Src1, B1) = createElementBitCast B Src STy
                        in Inr (createLoad B1 Src1))))"

text \<open>The argument loop (lines 473-540): the arguments and the argument types of the
  descriptor are walked together, \<open>ArgNo\<close> counting. The source does not check that the
  descriptor has a type for every argument; running out of types is a fault here.\<close>

fun materializeArgs ::
  "(QualType \<Rightarrow> mlir_Type) \<Rightarrow> mlir_Type \<Rightarrow> Builder \<Rightarrow> nat \<Rightarrow> CallArg list \<Rightarrow> QualType list \<Rightarrow>
   fault + (mlir_Value list \<times> Builder)" where
  "materializeArgs convertType CIRFuncTy B ArgNo [] types = Inr ([], B)"
| "materializeArgs convertType CIRFuncTy B ArgNo (I # rest) [] =
     Inl (Unreachable ''type_it past arg_end'')"
| "materializeArgs convertType CIRFuncTy B ArgNo (I # rest) (argQualType # types) =
     (case materializeArg convertType CIRFuncTy B ArgNo I argQualType of
        Inl e \<Rightarrow> Inl e
      | Inr (V, B1) \<Rightarrow>
          (case materializeArgs convertType CIRFuncTy B1 (Suc ArgNo) rest types of
             Inl e \<Rightarrow> Inl e
           | Inr (Vs, B2) \<Rightarrow> Inr (V # Vs, B2)))"

subsection \<open>Emitting the call operation\<close>

record TryOp =
  getSynthetic :: bool
  getTryRegion :: nat

record LexicalScope =
  getClosestTryParent :: "TryOp option"

datatype TypeEvaluationKind =
    TEK_Scalar
  | TEK_Complex
  | TEK_Aggregate

text \<open>The part of \<^verbatim>\<open>CIRGenFunction\<close> that \<^verbatim>\<open>emitCall\<close> reads: the module, the type
  conversion, the collaborators \<^verbatim>\<open>getEvaluationKind\<close> and \<^verbatim>\<open>CreateMemTemp\<close>, the
  function being compiled, the lexical scope, the answers of the exception-handling
  queries (\<^verbatim>\<open>isSEHTryScope()\<close>, \<^verbatim>\<open>currentFunctionUsesSEHTry()\<close>,
  \<^verbatim>\<open>isCleanupPadScope()\<close>, \<^verbatim>\<open>EHPersonality::get(*this).isMSVCXXPersonality()\<close>,
  \<^verbatim>\<open>isInvokeDest()\<close>), whether debug info is on, the symbol table of the module,
  whether a type is a non-trivial C struct to destroy, and the name
  \<^verbatim>\<open>getCounterAggTmpAsString()\<close> gives the next aggregate temporary (\<^verbatim>\<open>agg.tmp0\<close>,
  \<^verbatim>\<open>agg.tmp1\<close>, ... by a counter of the function).\<close>

record CIRGenFunction =
  CGM :: CIRGenModule
  CGF_convertType :: "QualType \<Rightarrow> mlir_Type"
  getEvaluationKind :: "QualType \<Rightarrow> TypeEvaluationKind"
  CreateMemTemp :: "QualType \<Rightarrow> string \<Rightarrow> Address"
  CurFuncDecl :: "Decl option"
  currLexScope :: "LexicalScope option"
  isSEHTryScope :: bool
  currentFunctionUsesSEHTry :: bool
  isCleanupPadScope :: bool
  isMSVCXXPersonality :: bool
  isInvokeDest :: bool
  getDebugInfo :: bool
  lookupSymbolIn :: "string \<Rightarrow> FuncOp option"
  isNontrivialCStruct :: "QualType \<Rightarrow> bool"
  getCounterAggTmpAsString :: string

text \<open>The operation a callee's function pointer is: a function, a reference to a global
  symbol, or another operation whose first result is the pointer.\<close>

datatype CalleeOperation =
    FuncOpPtr FuncOp
  | GetGlobalOpPtr string
  | OtherOpPtr mlir_Value

text \<open>\<^verbatim>\<open>CIRGenCallee\<close>; \<open>getFunctionPointer\<close> is the function pointer of the concrete
  callee, after \<^verbatim>\<open>prepareConcreteCallee\<close> (lines 128-136) has asked the ABI for the
  target of a virtual call.\<close>

record CIRGenCallee =
  isOrdinary :: bool
  isVirtualCallee :: bool
  getAbstractInfo :: CIRGenCalleeInfo
  getFunctionPointer :: CalleeOperation

definition setInsertionPointToStart :: "Builder \<Rightarrow> nat \<Rightarrow> Builder" where
  "setInsertionPointToStart B region =
     B\<lparr>insertionPoint := \<lparr>ip_region = region, ip_after = None\<rparr>\<rparr>"

text \<open>The lambda \<^verbatim>\<open>getOrCreateSurroundingTryOp\<close> (lines 327-353): the closest enclosing
  \<^verbatim>\<open>cir.try\<close>, or a synthetic one created at the insertion point, with a region of
  its own.\<close>

definition getOrCreateSurroundingTryOp ::
  "CIRGenFunction \<Rightarrow> Builder \<Rightarrow> fault + (TryOp \<times> Builder)" where
  "getOrCreateSurroundingTryOp CGF B =
     (case currLexScope CGF of
        None \<Rightarrow> Inl (AssertionFailed ''expected scope'')
      | Some scope \<Rightarrow>
          (case getClosestTryParent scope of
             Some op \<Rightarrow> Inr (op, B)
           | None \<Rightarrow>
               Inr (\<lparr>getSynthetic = True, getTryRegion = nextRegion B\<rparr>,
                    (insert_op B (TryOp_synthetic (nextRegion B)))
                      \<lparr>nextRegion := Suc (nextRegion B)\<rparr>)))"

text \<open>What the four call builders (\<^verbatim>\<open>createCallOp\<close>, \<^verbatim>\<open>createIndirectCallOp\<close>,
  \<^verbatim>\<open>createTryCallOp\<close>, \<^verbatim>\<open>createIndirectTryCallOp\<close>) have in common: the operation
  is inserted at the insertion point, in its region, and has one result of the return
  type of the callee's function type unless that is void.\<close>

definition targetFunctionType :: "CallTarget \<Rightarrow> mlir_Type" where
  "targetFunctionType target =
     (case target of Direct f \<Rightarrow> getFunctionType f | Indirect val fnTy \<Rightarrow> fnTy)"

definition createCallLike ::
  "Builder \<Rightarrow> bool \<Rightarrow> CallTarget \<Rightarrow> mlir_Value list \<Rightarrow> cir_CallingConv \<Rightarrow> SideEffect \<Rightarrow>
   NamedAttrList \<Rightarrow> CallLikeOp \<times> Builder" where
  "createCallLike B withExceptions target operands callingConv sideEffect extraFnAttrs =
     (let retTy = getFuncReturnType (targetFunctionType target);
          results = (if isa_VoidType retTy then [] else [CallResult (length (created B)) retTy]);
          region = ip_region (insertionPoint B);
          call = \<lparr>isTryCall = withExceptions, getTarget = target, getArgOperands = operands,
                  getCallingConv = callingConv, getSideEffect = sideEffect,
                  getExtraCallAttrs = extraFnAttrs, getParentRegion = region,
                  getOpResults = results\<rparr>
      in (call,
          (insert_op B (Call call))
            \<lparr>definedIn := (\<lambda>v. if v \<in> set results then region else definedIn B v)\<rparr>))"

text \<open>\<^verbatim>\<open>emitCallLikeOp\<close> (lines 319-408). \<open>target\<close> is the pair of
  \<^verbatim>\<open>indirectFuncTy\<close>/\<^verbatim>\<open>indirectFuncVal\<close> when the type is not null and
  \<^verbatim>\<open>directFuncOp\<close> otherwise. The bookkeeping of the invoke destination
  (\<^verbatim>\<open>mayThrow\<close>, \<^verbatim>\<open>getInvokeDest\<close>) creates no operation of the call and is left
  out.\<close>

definition emitCallLikeOp ::
  "CIRGenFunction \<Rightarrow> Builder \<Rightarrow> CallTarget \<Rightarrow> mlir_Value list \<Rightarrow> bool \<Rightarrow> cir_CallingConv \<Rightarrow>
   SideEffect \<Rightarrow> NamedAttrList \<Rightarrow> fault + (CallLikeOp \<times> Builder)" where
  "emitCallLikeOp CGF B target CIRCallArgs isInvoke callingConv sideEffect extraFnAttrs =
     (if isInvoke then
        (case getOrCreateSurroundingTryOp CGF B of
           Inl e \<Rightarrow> Inl e
         | Inr (tryOp, B1) \<Rightarrow>
             (let ip = saveInsertionPoint B1;
                  B2 = (if getSynthetic tryOp
                        then setInsertionPointToStart B1 (getTryRegion tryOp) else B1)
              in if callingConv \<noteq> cir_C then Inl (AssertionFailed ''NYI'')
                 else
                   let (callOpWithExceptions, B3) =
                         createCallLike B2 True target CIRCallArgs callingConv sideEffect
                           extraFnAttrs;
                       B4 = (if getSynthetic tryOp
                             then restoreInsertionPoint (insert_op B3 YieldOp) ip else B3)
                   in Inr (callOpWithExceptions, B4)))
      else
        (case target of
           Indirect val fnTy \<Rightarrow>
             if callingConv \<noteq> cir_C then Inl (AssertionFailed ''NYI'')
             else Inr (createCallLike B False target CIRCallArgs cir_C sideEffect extraFnAttrs)
         | Direct f \<Rightarrow>
             Inr (createCallLike B False target CIRCallArgs callingConv sideEffect
                    extraFnAttrs)))"

text \<open>\<^verbatim>\<open>getRValueThroughMemory\<close> (lines 410-419).\<close>

definition getRValueThroughMemory ::
  "Builder \<Rightarrow> mlir_Value \<Rightarrow> Address \<Rightarrow> RValue \<times> Builder" where
  "getRValueThroughMemory B val addr =
     (let ip = saveInsertionPoint B;
          B1 = setInsertionPointAfterValue B val;
          B2 = createStore B1 val addr;
          B3 = restoreInsertionPoint B2 ip;
          (load, B4) = createLoad B3 addr
      in (RValue_get load, B4))"

text \<open>\<^verbatim>\<open>CIRGenFunction::emitAggregateStore\<close> (lines 138-154): the store is inserted
  after the operation that defines the value, and the insertion guard puts the insertion
  point back.\<close>

definition emitAggregateStore :: "Builder \<Rightarrow> mlir_Value \<Rightarrow> Address \<Rightarrow> Builder" where
  "emitAggregateStore B Val Dest =
     (let guard = saveInsertionPoint B;
          B1 = setInsertionPointAfterValue B Val;
          B2 = createStore B1 Val Dest
      in restoreInsertionPoint B2 guard)"

subsection \<open>The parts of emitCall\<close>

text \<open>The decision between a call and an invoke (lines 588-609): \<open>Attrs\<close> is the attribute
  list that \<^verbatim>\<open>constructAttributeList\<close> filled for the call site and \<open>CalleePtr\<close> the
  function pointer of the concrete callee.\<close>

definition CannotThrow :: "CIRGenFunction \<Rightarrow> NamedAttrList \<Rightarrow> CalleeOperation \<Rightarrow> bool" where
  "CannotThrow CGF Attrs CalleePtr =
     (if currentFunctionUsesSEHTry CGF then False
      else if isCleanupPadScope CGF \<and> isMSVCXXPersonality CGF then True
      else
        let noThrowAttr = cir_NoThrowAttr;
            named = hasNamed Attrs (getMnemonic noThrowAttr)
        in case CalleePtr of
             FuncOpPtr fptr \<Rightarrow>
               if hasNamed (getExtraAttrs fptr) (getMnemonic noThrowAttr) then True else named
           | _ \<Rightarrow> named)"

definition isInvoke :: "CIRGenFunction \<Rightarrow> NamedAttrList \<Rightarrow> CalleeOperation \<Rightarrow> bool" where
  "isInvoke CGF Attrs CalleePtr =
     (if CannotThrow CGF Attrs CalleePtr then False else isInvokeDest CGF)"

text \<open>The callee of the call operation (lines 619-643): the function itself, the function a
  global symbol names, or the pointer with the machine function type of the
  descriptor.\<close>

definition resolveCallTarget ::
  "CIRGenFunction \<Rightarrow> mlir_Type \<Rightarrow> CalleeOperation \<Rightarrow> fault + CallTarget" where
  "resolveCallTarget CGF CIRFuncTy CalleePtr =
     (case CalleePtr of
        FuncOpPtr fnOp \<Rightarrow> Inr (Direct fnOp)
      | GetGlobalOpPtr name \<Rightarrow>
          (case lookupSymbolIn CGF name of
             None \<Rightarrow> Inl (AssertionFailed ''operation is not a function'')
           | Some directFuncOp \<Rightarrow> Inr (Direct directFuncOp))
      | OtherOpPtr result0 \<Rightarrow>
          (case value_getType result0 of
             cir_PointerType (cir_FuncType inputs ret va) \<Rightarrow> Inr (Indirect result0 CIRFuncTy)
           | _ \<Rightarrow> Inl (AssertionFailed ''expected pointer to function'')))"

text \<open>The extraction of the returned value (lines 686-729). \<open>ReturnValue\<close> is the return
  value slot, \<open>None\<close> when its address is not valid. \<^verbatim>\<open>Results[0]\<close> of a call without
  result is a fault here. \<^verbatim>\<open>GetUndefRValue\<close> is \<open>UndefRValue\<close>.\<close>

definition extractReturnValue ::
  "CIRGenFunction \<Rightarrow> Builder \<Rightarrow> QualType \<Rightarrow> Address option \<Rightarrow> CallLikeOp \<Rightarrow>
   fault + (RValue \<times> Builder)" where
  "extractReturnValue CGF B RetTy ReturnValue theCall =
     (let RetCIRTy = CGF_convertType CGF RetTy
      in if isa_VoidType RetCIRTy then Inr (UndefRValue RetTy, B)
         else
           case getEvaluationKind CGF RetTy of
             TEK_Aggregate \<Rightarrow>
               (let DestPtr =
                      (case ReturnValue of
                         Some a \<Rightarrow> a
                       | None \<Rightarrow> CreateMemTemp CGF RetTy (getCounterAggTmpAsString CGF));
                    Results = getOpResults theCall
                in if \<not> length Results \<le> 1 then Inl (AssertionFailed ''multiple returns NYI'')
                   else
                     case Results of
                       [] \<Rightarrow> Inl (Unreachable ''Results[0] of no result'')
                     | r # rs \<Rightarrow>
                         Inr (RValue_getAggregate DestPtr, emitAggregateStore B r DestPtr))
           | TEK_Scalar \<Rightarrow>
               (let Results = getOpResults theCall
                in if \<not> length Results \<le> 1 then Inl (AssertionFailed ''multiple returns NYI'')
                   else
                     case Results of
                       [] \<Rightarrow> Inl (Unreachable ''Results[0] of no result'')
                     | r # rs \<Rightarrow>
                         if value_getType r \<noteq> RetCIRTy then
                           Inl (AssertionFailed ''Bitcast support NYI'')
                         else
                           let region = ip_region (insertionPoint B)
                           in if region \<noteq> getParentRegion theCall then
                                (let DestPtr =
                                       (case ReturnValue of
                                          Some a \<Rightarrow> a
                                        | None \<Rightarrow> CreateMemTemp CGF RetTy ''tmp.try.call.res'')
                                 in Inr (getRValueThroughMemory B r DestPtr))
                              else Inr (RValue_get r, B))
           | TEK_Complex \<Rightarrow> Inl (Unreachable ''NYI''))"

text \<open>Whether the function being compiled is a function declaration with an attribute
  (\<^verbatim>\<open>dyn_cast_or_null<FunctionDecl>(CurFuncDecl)\<close> and \<^verbatim>\<open>hasAttr\<close>).\<close>

definition curFuncHasAttr :: "CIRGenFunction \<Rightarrow> Attr \<Rightarrow> bool" where
  "curFuncHasAttr CGF A =
     (case CurFuncDecl CGF of
        Some (FunctionDeclD FD) \<Rightarrow> A \<in> set (fd_attrs FD)
      | _ \<Rightarrow> False)"

definition targetDeclHasAttr :: "Decl option \<Rightarrow> Attr \<Rightarrow> bool" where
  "targetDeclHasAttr TargetDecl A =
     (case TargetDecl of Some D \<Rightarrow> hasAttr D A | None \<Rightarrow> False)"

text \<open>\<^verbatim>\<open>CIRGenFunction::emitCall\<close> (lines 421-738), in the order of the source: the
  machine function type, the arguments, the attributes, the decision between call and
  invoke, the call operation, the returned value. \<open>S\<close> is the set of descriptors under
  construction. The result is the returned value, the call operation (what the source
  hands out through \<^verbatim>\<open>callOrTryCall\<close>) and the builder. The check of target features
  (lines 448-454) only reports diagnostics and the call expression \<^verbatim>\<open>E\<close> only labels
  the operation; both are left out. The assertions on \<^verbatim>\<open>MissingFeatures\<close> and on the
  argument memory of \<^verbatim>\<open>inalloca\<close> hold always.\<close>

definition emitCall ::
  "CIRGenFunction \<Rightarrow> Builder \<Rightarrow> FunctionsBeingProcessed \<Rightarrow> CIRGenFunctionInfo \<Rightarrow>
   CIRGenCallee \<Rightarrow> Address option \<Rightarrow> CallArg list \<Rightarrow> bool \<Rightarrow>
   fault + (RValue \<times> CallLikeOp \<times> Builder)" where
  "emitCall CGF B S CallInfo Callee ReturnValue CallArgs IsMustTail =
     (if \<not> (isOrdinary Callee \<or> isVirtualCallee Callee) then
        Inl (AssertionFailed ''Callee.isOrdinary() || Callee.isVirtual()'')
      else
     (let RetTy = getReturnType CallInfo
      in case GetFunctionType (pureConvert (CGF_convertType CGF)) CallInfo S of
        Inl e \<Rightarrow> Inl e
      | Inr (CIRFuncTy, S1) \<Rightarrow>
     (let TargetDecl = getCalleeDecl (getAbstractInfo Callee)
      in if ArgRecord CallInfo \<noteq> None then Inl (AssertionFailed ''NYI'')
      else
     (case materializeArgs (CGF_convertType CGF) CIRFuncTy B 0 CallArgs
             (ArgTypeSlots CallInfo) of
        Inl e \<Rightarrow> Inl e
      | Inr (CIRCallArgs, B1) \<Rightarrow>
     (let CalleePtr = getFunctionPointer Callee;
          FnName = (case CalleePtr of FuncOpPtr calleeFnOp \<Rightarrow> getName calleeFnOp | _ \<Rightarrow> [])
      in case constructAttributeList (CGM CGF) FnName CallInfo (getAbstractInfo Callee)
                Map.empty True False of
        Inl e \<Rightarrow> Inl e
      | Inr (Attrs, callingConv, sideEffect) \<Rightarrow>
     (if isSEHTryScope CGF then Inl (Unreachable ''NYI'')
      else
     (let invoke = isInvoke CGF Attrs CalleePtr
      in if curFuncHasAttr CGF StrictFPAttr then Inl (AssertionFailed ''NYI'')
      else
     (case resolveCallTarget CGF CIRFuncTy CalleePtr of
        Inl e \<Rightarrow> Inl e
      | Inr target \<Rightarrow>
     (case emitCallLikeOp CGF B1 target CIRCallArgs invoke callingConv sideEffect Attrs of
        Inl e \<Rightarrow> Inl e
      | Inr (theCall, B2) \<Rightarrow>
     (if curFuncHasAttr CGF CFGuardAttr then Inl (AssertionFailed ''NYI'')
      else if ObjCAutoRefCount (getLangOpts (CGM CGF)) then
        Inl (AssertionFailed ''Not supported'')
      else if targetDeclHasAttr TargetDecl NotTailCalledAttr then
        Inl (AssertionFailed ''NYI'')
      else if getDebugInfo CGF then Inl (AssertionFailed ''No debug info yet'')
      else if targetDeclHasAttr TargetDecl ErrorAttr then Inl (AssertionFailed ''NYI'')
      else if IsMustTail then Inl (AssertionFailed ''NYI'')
      else
     (case extractReturnValue CGF B2 RetTy ReturnValue theCall of
        Inl e \<Rightarrow> Inl e
      | Inr (ret, B3) \<Rightarrow>
          if isNontrivialCStruct CGF RetTy then Inl (AssertionFailed ''NYI'')
          else Inr (ret, theCall, B3))))))))))))"

subsection \<open>Concrete collaborators and inputs\<close>

text \<open>An ABI object in the manner of the Itanium C++ ABI for a class without virtual bases
  (no structor argument added, no \<^verbatim>\<open>this\<close> return), a \<^verbatim>\<open>CIRGenTypes\<close> over it, and
  the plain \<^verbatim>\<open>ExtInfo\<close> of a C function.\<close>

definition plainABI :: CIRGenCXXABI where
  "plainABI =
     \<lparr>buildStructorSignature = (\<lambda>GD argTypes. (\<lparr>Prefix = 0, Suffix = 0\<rparr>, argTypes)),
      HasThisReturn = (\<lambda>GD. False),
      hasMostDerivedReturn = (\<lambda>GD. False),
      getThisArgumentTypeForMethod =
        (\<lambda>FD. case asCXXMethodDecl FD of Some MD \<Rightarrow> getParent MD | None \<Rightarrow> None)\<rparr>"

definition plainCGT :: CIRGenTypes where
  "plainCGT =
     \<lparr>TheCXXABI = plainABI,
      hasConstructorVariants = True,
      ClangCallConvToCIRCallConv = (\<lambda>cc. cir_C),
      targetSetCUDAKernelCallingConvention = (\<lambda>FTy. FTy)\<rparr>"

definition plainExtInfo :: ExtInfo where
  "plainExtInfo =
     \<lparr>getCC = CC_C, getNoReturn = False, getProducesResult = False,
      getNoCallerSavedRegs = False, getNoCfCheck = False, getCmseNSCall = False,
      getHasRegParm = False, getRegParm = 0\<rparr>"

text \<open>The unprototyped C function \<^verbatim>\<open>int f();\<close> and two \<^verbatim>\<open>int\<close> arguments of a call
  to it.\<close>

definition intTy :: QualType where
  "intTy = BuiltinTy ''int''"

definition noProto_int :: FunctionNoProtoType where
  "noProto_int = \<lparr>noproto_ReturnType = intTy, noproto_ExtInfo = plainExtInfo\<rparr>"

definition decl_f :: FunctionDecl where
  "decl_f =
     \<lparr>getType = FunctionNoProto noProto_int, asCXXMethodDecl = None, fd_attrs = [],
      isNoReturn = False, isReplaceableGlobalAllocationFunction = False,
      isOperatorNew = False\<rparr>"

definition s32 :: mlir_Type where
  "s32 = cir_IntType 32 True"

definition two_int_args :: "CallArg list" where
  "two_int_args =
     [\<lparr>Ty = intTy, argValue = RV (RValue_get (Value ''a'' s32))\<rparr>,
      \<lparr>Ty = intTy, argValue = RV (RValue_get (Value ''b'' s32))\<rparr>]"

text \<open>A constructor \<^verbatim>\<open>D(int)\<close> that the class \<^verbatim>\<open>D\<close> inherits from a base
  (\<^verbatim>\<open>using B::B;\<close>); the parameter says whether the shadow declaration constructs a
  virtual base.\<close>

definition ctor_proto :: FunctionProtoType where
  "ctor_proto =
     \<lparr>proto_ReturnType = VoidTy, proto_ParamTypes = [intTy], proto_isVariadic = False,
      proto_ExtInfo = plainExtInfo, hasExtParameterInfos = False,
      proto_ExtParameterInfos = [], isUnresolvedExceptionSpec = False, isNothrow = False\<rparr>"

definition inheriting_ctor :: "bool \<Rightarrow> FunctionDecl" where
  "inheriting_ctor viaVirtualBase =
     \<lparr>getType = FunctionProto ctor_proto,
      asCXXMethodDecl =
        Some \<lparr>getParent = Some ''D'', isInstance = True, isVirtual = False,
              getAddressSpace = 0,
              methodKind =
                CXXConstructorDecl (Some \<lparr>constructsVirtualBase = viaVirtualBase\<rparr>)\<rparr>,
      fd_attrs = [], isNoReturn = False, isReplaceableGlobalAllocationFunction = False,
      isOperatorNew = False\<rparr>"

definition this_D :: QualType where
  "this_D = PointerTy (AddrSpaceQualTy (TagDeclTy ''D'') 0)"

text \<open>The function \<^verbatim>\<open>int Int(int i)\<close>, the variadic \<^verbatim>\<open>int printf(char *, ...)\<close>, their
  descriptors, and a type conversion for a target with 32-bit \<^verbatim>\<open>int\<close>.\<close>

definition proto_Int :: FunctionProtoType where
  "proto_Int =
     \<lparr>proto_ReturnType = intTy, proto_ParamTypes = [intTy], proto_isVariadic = False,
      proto_ExtInfo = plainExtInfo, hasExtParameterInfos = False,
      proto_ExtParameterInfos = [], isUnresolvedExceptionSpec = False, isNothrow = False\<rparr>"

definition descriptor_of ::
  "QualType \<Rightarrow> QualType list \<Rightarrow> RequiredArgs \<Rightarrow> CIRGenFunctionInfo" where
  "descriptor_of resultType argTypes required =
     \<lparr>CallingConvention = cir_C, EffectiveCallingConvention = cir_C,
      ASTCallingConvention = CC_C, InstanceMethod = False, ChainCall = False,
      CmseNSCall = False, NoReturn = False, ReturnsRetained = False,
      NoCallerSavedRegs = False, NoCfCheck = False, Required = required,
      HasRegParm = False, RegParm = 0, ArgRecord = None, ArgRecordAlign = 0,
      NumArgs = length argTypes, HasExtParameterInfos = False,
      ReturnTypeSlot = resultType, ArgTypeSlots = argTypes, ExtParameterInfosBuffer = []\<rparr>"

definition descriptor_Int :: CIRGenFunctionInfo where
  "descriptor_Int = descriptor_of intTy [intTy] RequiredArgs_All"

definition charPtrTy :: QualType where
  "charPtrTy = PointerTy (BuiltinTy ''char'')"

definition descriptor_printf :: CIRGenFunctionInfo where
  "descriptor_printf = descriptor_of intTy [charPtrTy, intTy, intTy] (RequiredArgs 1)"

fun convertExample :: "QualType \<Rightarrow> mlir_Type" where
  "convertExample VoidTy = NullType"
| "convertExample VoidPtrTy = cir_PointerType cir_VoidType"
| "convertExample SizeTy = cir_IntType 64 False"
| "convertExample (BuiltinTy name) =
     (if name = ''int'' then cir_IntType 32 True
      else if name = ''char'' then cir_IntType 8 True
      else if name = ''double'' then cir_DoubleType
      else cir_RecordType name [])"
| "convertExample (TagDeclTy name) = cir_RecordType name [cir_IntType 32 True, cir_IntType 32 True]"
| "convertExample (AddrSpaceQualTy T a) = convertExample T"
| "convertExample (PointerTy T) = cir_PointerType (convertExample T)"

text \<open>A builder at the running position of region 0 with nothing created, in a function
  whose values so far are all defined in region 0.\<close>

definition builder0 :: Builder where
  "builder0 =
     \<lparr>insertionPoint = \<lparr>ip_region = 0, ip_after = None\<rparr>, created = [],
      definedIn = (\<lambda>v. 0), nextRegion = 1\<rparr>"

text \<open>Scalar arguments: a \<^verbatim>\<open>char\<close>, an \<^verbatim>\<open>unsigned\<close>, a \<^verbatim>\<open>long\<close>, an \<^verbatim>\<open>int\<close> and
  a pointer to \<^verbatim>\<open>void\<close> passed where a pointer to \<^verbatim>\<open>char\<close> is expected.\<close>

definition scalarArg :: "QualType \<Rightarrow> string \<Rightarrow> mlir_Type \<Rightarrow> CallArg" where
  "scalarArg T name mty = \<lparr>Ty = T, argValue = RV (RValue_get (Value name mty))\<rparr>"

text \<open>Aggregate arguments: a \<^verbatim>\<open>struct S { int a, b; }\<close> read from a temporary that holds
  it, and one read from memory of another shape of the same size.\<close>

definition struct_S :: mlir_Type where
  "struct_S = cir_RecordType ''S'' [cir_IntType 32 True, cir_IntType 32 True]"

definition struct_U64 :: mlir_Type where
  "struct_U64 = cir_RecordType ''U'' [cir_IntType 64 False]"

definition addressOf :: "string \<Rightarrow> mlir_Type \<Rightarrow> Address" where
  "addressOf name elemTy =
     \<lparr>getPointer = Value name (cir_PointerType elemTy), getElementType = elemTy,
      getAlignment = 4\<rparr>"

definition aggregateArg :: "string \<Rightarrow> mlir_Type \<Rightarrow> CallArg" where
  "aggregateArg name elemTy =
     \<lparr>Ty = TagDeclTy ''S'', argValue = RV (RValue_getAggregate (addressOf name elemTy))\<rparr>"

text \<open>A module and a function being compiled in plain C++ for the host, with exceptions
  enabled (\<^verbatim>\<open>isInvokeDest()\<close> holds) and no enclosing \<^verbatim>\<open>cir.try\<close>.\<close>

definition plainLangOpts :: LangOptions where
  "plainLangOpts =
     \<lparr>OpenCLVersion = 0, OffloadUniformBlock = False, OpenCL = False, CUDA = False,
      HIP = False, CUDAIsDevice = False, SYCLIsDevice = False,
      assumeFunctionsAreConvergent = False, ObjCAutoRefCount = False\<rparr>"

definition plainCGM :: CIRGenModule where
  "plainCGM =
     \<lparr>getLangOpts = plainLangOpts, getCodeGenOpts = \<lparr>AssumeSaneOperatorNew = True\<rparr>,
      getMangledName = (\<lambda>D. ''kernel'')\<rparr>"

definition plainCGF :: CIRGenFunction where
  "plainCGF =
     \<lparr>CGM = plainCGM,
      CGF_convertType = convertExample,
      getEvaluationKind = (\<lambda>T. case T of TagDeclTy name \<Rightarrow> TEK_Aggregate | _ \<Rightarrow> TEK_Scalar),
      CreateMemTemp = (\<lambda>T name. addressOf name (convertExample T)),
      CurFuncDecl = None,
      currLexScope = Some \<lparr>getClosestTryParent = None\<rparr>,
      isSEHTryScope = False,
      currentFunctionUsesSEHTry = False,
      isCleanupPadScope = False,
      isMSVCXXPersonality = False,
      isInvokeDest = True,
      getDebugInfo = False,
      lookupSymbolIn = (\<lambda>name. None),
      isNontrivialCStruct = (\<lambda>T. False),
      getCounterAggTmpAsString = ''agg.tmp0''\<rparr>"

text \<open>Declarations of \<^verbatim>\<open>int Int(int)\<close>: with given attributes and \<^verbatim>\<open>noreturn\<close>
  property, as a free function or as a virtual member function of \<^verbatim>\<open>D\<close>; and with an
  exception specification that is resolved and non-throwing (\<^verbatim>\<open>noexcept\<close>) or still
  unresolved.\<close>

definition decl_Int :: "Attr list \<Rightarrow> bool \<Rightarrow> FunctionDecl" where
  "decl_Int attrs noreturn =
     \<lparr>getType = FunctionProto proto_Int, asCXXMethodDecl = None, fd_attrs = attrs,
      isNoReturn = noreturn, isReplaceableGlobalAllocationFunction = False,
      isOperatorNew = False\<rparr>"

definition virtual_Int :: "Attr list \<Rightarrow> bool \<Rightarrow> FunctionDecl" where
  "virtual_Int attrs noreturn =
     (decl_Int attrs noreturn)
       \<lparr>asCXXMethodDecl :=
          Some \<lparr>getParent = Some ''D'', isInstance = True, isVirtual = True,
                getAddressSpace = 0, methodKind = OrdinaryMethod\<rparr>\<rparr>"

definition proto_noexcept :: FunctionProtoType where
  "proto_noexcept = proto_Int\<lparr>isNothrow := True\<rparr>"

definition proto_unresolved :: FunctionProtoType where
  "proto_unresolved = proto_Int\<lparr>isUnresolvedExceptionSpec := True, isNothrow := True\<rparr>"

definition funcOp_Int :: FuncOp where
  "funcOp_Int =
     \<lparr>getName = ''_Z3Inti'',
      getFunctionType = cir_FuncType [cir_IntType 32 True] (cir_IntType 32 True) False,
      getExtraAttrs = Map.empty\<rparr>"

text \<open>The callee of a direct call to a declared function.\<close>

definition calleeInfoOf :: "FunctionDecl \<Rightarrow> CIRGenCalleeInfo" where
  "calleeInfoOf FD =
     \<lparr>getCalleeFunctionProtoType =
        (case getType FD of FunctionProto P \<Rightarrow> Some P | FunctionNoProto N \<Rightarrow> None),
      getCalleeDecl = Some (FunctionDeclD FD)\<rparr>"

definition calleeOf :: "FunctionDecl \<Rightarrow> CIRGenCallee" where
  "calleeOf FD =
     \<lparr>isOrdinary = True, isVirtualCallee = False, getAbstractInfo = calleeInfoOf FD,
      getFunctionPointer = FuncOpPtr funcOp_Int\<rparr>"

definition decl_noexcept :: FunctionDecl where
  "decl_noexcept = (decl_Int [] False)\<lparr>getType := FunctionProto proto_noexcept\<rparr>"

definition decl_unresolved :: FunctionDecl where
  "decl_unresolved = (decl_Int [] False)\<lparr>getType := FunctionProto proto_unresolved\<rparr>"

text \<open>A call of \<^verbatim>\<open>int Int(int)\<close> that was created in the given region and has one result.\<close>

definition call_in_region :: "nat \<Rightarrow> CallLikeOp" where
  "call_in_region region =
     \<lparr>isTryCall = (region \<noteq> 0), getTarget = Direct funcOp_Int,
      getArgOperands = [Value ''i'' (cir_IntType 32 True)], getCallingConv = cir_C,
      getSideEffect = SideEffect_All, getExtraCallAttrs = Map.empty,
      getParentRegion = region, getOpResults = [CallResult 1 (cir_IntType 32 True)]\<rparr>"

text \<open>The builder of a function in which the result of that call is defined in the given
  region.\<close>

definition builder_after_call :: "nat \<Rightarrow> Builder" where
  "builder_after_call region =
     builder0\<lparr>definedIn :=
       (\<lambda>v. if v = CallResult 1 (cir_IntType 32 True) then region else 0)\<rparr>"

subsection \<open>Notions used in the statements\<close>

text \<open>A prototype that is there, whose exception specification is resolved and
  non-throwing.\<close>

definition resolvedNothrow :: "FunctionProtoType option \<Rightarrow> bool" where
  "resolvedNothrow FPT =
     (case FPT of Some P \<Rightarrow> isUnresolvedExceptionSpec P = False \<and> isNothrow P | None \<Rightarrow> False)"

text \<open>The prototype of the declaration the callee was named by, when that is a function
  declaration with a prototype.\<close>

definition declPrototype :: "Decl option \<Rightarrow> FunctionProtoType option" where
  "declPrototype TargetDecl =
     (case TargetDecl of
        Some (FunctionDeclD Fn) \<Rightarrow>
          (case getType Fn of FunctionProto P \<Rightarrow> Some P | FunctionNoProto N \<Rightarrow> None)
      | _ \<Rightarrow> None)"

text \<open>The language modes in which every function and call is no-throw by default
  (lines 1432-1436).\<close>

definition nothrowByDefault :: "LangOptions \<Rightarrow> bool" where
  "nothrowByDefault langOpts =
     (OpenCL langOpts \<or> ((CUDA langOpts \<or> HIP langOpts) \<and> CUDAIsDevice langOpts))"

text \<open>A function declaration with the no-return property and the no-builtin attribute taken
  off.\<close>

definition withoutNoReturnNoBuiltin :: "FunctionDecl \<Rightarrow> FunctionDecl" where
  "withoutNoReturnNoBuiltin Fn =
     Fn\<lparr>isNoReturn := False, fd_attrs := removeAll NoBuiltinAttr (fd_attrs Fn)\<rparr>"

section \<open>Properties\<close>

subsection \<open>The factory\<close>

text \<open>
  C2. Every descriptor that \<^verbatim>\<open>create\<close> constructs has an extended parameter info
  sequence of length zero or of exactly the number of its argument types; the flag
  \<open>HasExtParameterInfos\<close> says which, and \<open>NumArgs\<close> is the number of argument types
  stored.
\<close>

theorem create_ext_info_length:
  assumes "create cirCC instanceMethod chainCall info paramInfos resultType argTypes required
             = Inr FI"
  shows "(length (ExtParameterInfosBuffer FI) = 0
            \<or> length (ExtParameterInfosBuffer FI) = arg_size FI)
         \<and> arg_size FI = length (ArgTypeSlots FI)
         \<and> ArgTypeSlots FI = argTypes
         \<and> ExtParameterInfosBuffer FI = paramInfos
         \<and> (HasExtParameterInfos FI \<longleftrightarrow> length (ExtParameterInfosBuffer FI) = arg_size FI
                                          \<and> arg_size FI \<noteq> 0)"
  using assms
  by (auto simp: create_def arg_size_def split: if_splits)

theorem create_ext_info_length_witness:
  "(case create cir_C False False
           \<lparr>getCC = CC_C, getNoReturn = False, getProducesResult = False,
            getNoCallerSavedRegs = False, getNoCfCheck = False, getCmseNSCall = False,
            getHasRegParm = False, getRegParm = 0\<rparr>
           [\<lparr>hasPassObjectSize = True, isNoEscape = False, isConsumed = False\<rparr>,
            default_ExtParameterInfo]
           (BuiltinTy ''int'') [PointerTy (BuiltinTy ''char''), SizeTy] RequiredArgs_All of
      Inl e \<Rightarrow> False
    | Inr FI \<Rightarrow> length (ExtParameterInfosBuffer FI) = 2 \<and> arg_size FI = 2
                 \<and> HasExtParameterInfos FI)"
  using create_ext_info_length
    [of cir_C False False
        "\<lparr>getCC = CC_C, getNoReturn = False, getProducesResult = False,
          getNoCallerSavedRegs = False, getNoCfCheck = False, getCmseNSCall = False,
          getHasRegParm = False, getRegParm = 0\<rparr>"
        "[\<lparr>hasPassObjectSize = True, isNoEscape = False, isConsumed = False\<rparr>,
          default_ExtParameterInfo]"
        "BuiltinTy ''int''" "[PointerTy (BuiltinTy ''char''), SizeTy]" RequiredArgs_All]
  by (simp add: create_def arg_size_def)

text \<open>The two assertions of the factory hold for what the arrangers of this file pass: the
  parameter infos they build are empty or one per argument type, and a descriptor that
  was constructed requires no more arguments than it has.\<close>

lemma length_resize: "length (resize n xs) = n"
  by (simp add: resize_def)

lemma addExtParameterInfosForCall_length:
  "addExtParameterInfosForCall paramInfos proto prefixArgs totalArgs = Inr paramInfos1
   \<Longrightarrow> length paramInfos1 = totalArgs"
  by (auto simp: addExtParameterInfosForCall_def length_resize Let_def split: if_splits)

lemma appendParameterTypes_length:
  "appendParameterTypes prefix paramInfos FPT = Inr (prefix1, paramInfos1)
   \<Longrightarrow> paramInfos1 = [] \<or> length paramInfos1 = length prefix1"
  by (auto simp: appendParameterTypes_def Let_def
      dest: addExtParameterInfosForCall_length split: if_splits sum.splits)

lemma create_required_count:
  "create cirCC instanceMethod chainCall info paramInfos resultType argTypes required = Inr FI
   \<Longrightarrow> getNumRequiredArgs FI \<le> arg_size FI \<and> arg_size FI = length (ArgTypeSlots FI)"
  by (auto simp: create_def getNumRequiredArgs_def arg_size_def
      split: if_splits RequiredArgs.splits)

subsection \<open>Unprototyped function types\<close>

text \<open>
  C1 (as the spec states it, refuted). Arranging the declaration of the unprototyped
  \<^verbatim>\<open>int f();\<close> gives a descriptor that is not variadic, and arranging a call to it with
  two arguments gives a variadic descriptor with two required arguments, not zero.
\<close>

theorem unprototyped_not_always_variadic_zero:
  "(case arrangeFunctionDeclaration plainCGT decl_f of
      Inl e \<Rightarrow> False
    | Inr FI \<Rightarrow> isVariadic FI = False \<and> arg_size FI = 0)
   \<and> (case arrangeFreeFunctionLikeCall plainCGT two_int_args (FunctionNoProto noProto_int) 0
             FnInfoOpts_None of
        Inl e \<Rightarrow> False
      | Inr FI \<Rightarrow> isVariadic FI = True \<and> getNumRequiredArgs FI = 2)"
  by (simp add: arrangeFunctionDeclaration_def arrangeFreeFunctionLikeCall_def
      arrangeCIRFunctionInfo_def create_def decl_f_def two_int_args_def noProto_int_def
      isVariadic_def arg_size_def getNumRequiredArgs_def)

text \<open>
  C1 (amended). For an unprototyped function type the three arrangement paths differ.
  Arranging the free function type gives a variadic descriptor with zero required
  arguments and no argument type. Arranging the declaration of a function that is not an
  instance method gives a descriptor that is not variadic, with no argument type.
  Arranging a call (not a chain call, with at least the extra required arguments) gives a
  variadic descriptor whose argument types are those of the arguments passed, all of them
  required.
\<close>

theorem unprototyped_arrangement:
  "(\<exists>FI. arrangeFreeFunctionType_NoProto CGT FTNP = Inr FI
          \<and> isVariadic FI \<and> getNumRequiredArgs FI = 0 \<and> ArgTypeSlots FI = []
          \<and> requiredArguments FI = [])
   \<and> (getType FD = FunctionNoProto noProto
        \<and> (case asCXXMethodDecl FD of Some MD \<Rightarrow> \<not> isInstance MD | None \<Rightarrow> True)
      \<longrightarrow> (\<exists>FI. arrangeFunctionDeclaration CGT FD = Inr FI
                \<and> \<not> isVariadic FI \<and> ArgTypeSlots FI = [] \<and> arg_size FI = 0))
   \<and> (numExtraRequiredArgs \<le> length args \<and> chainCall \<noteq> IsChainCall
      \<longrightarrow> (\<exists>FI. arrangeFreeFunctionLikeCall CGT args (FunctionNoProto noProto)
                   numExtraRequiredArgs chainCall = Inr FI
                \<and> isVariadic FI \<and> getNumRequiredArgs FI = length args
                \<and> ArgTypeSlots FI = map Ty args
                \<and> requiredArguments FI = map Ty args))"
proof (intro conjI impI)
  show "\<exists>FI. arrangeFreeFunctionType_NoProto CGT FTNP = Inr FI
          \<and> isVariadic FI \<and> getNumRequiredArgs FI = 0 \<and> ArgTypeSlots FI = []
          \<and> requiredArguments FI = []"
    by (simp add: arrangeFreeFunctionType_NoProto_def arrangeCIRFunctionInfo_def create_def
        isVariadic_def getNumRequiredArgs_def requiredArguments_def)
next
  assume h: "getType FD = FunctionNoProto noProto
        \<and> (case asCXXMethodDecl FD of Some MD \<Rightarrow> \<not> isInstance MD | None \<Rightarrow> True)"
  then show "\<exists>FI. arrangeFunctionDeclaration CGT FD = Inr FI
                \<and> \<not> isVariadic FI \<and> ArgTypeSlots FI = [] \<and> arg_size FI = 0"
    by (cases "asCXXMethodDecl FD")
       (simp_all add: arrangeFunctionDeclaration_def arrangeCIRFunctionInfo_def create_def
          isVariadic_def arg_size_def)
next
  assume "numExtraRequiredArgs \<le> length args \<and> chainCall \<noteq> IsChainCall"
  then show "\<exists>FI. arrangeFreeFunctionLikeCall CGT args (FunctionNoProto noProto)
                   numExtraRequiredArgs chainCall = Inr FI
                \<and> isVariadic FI \<and> getNumRequiredArgs FI = length args
                \<and> ArgTypeSlots FI = map Ty args
                \<and> requiredArguments FI = map Ty args"
    by (simp add: arrangeFreeFunctionLikeCall_def arrangeCIRFunctionInfo_def create_def
        isVariadic_def getNumRequiredArgs_def requiredArguments_def)
qed

theorem unprototyped_arrangement_witness:
  "(\<exists>FI. arrangeFreeFunctionType_NoProto plainCGT noProto_int = Inr FI
          \<and> isVariadic FI \<and> getNumRequiredArgs FI = 0)
   \<and> (\<exists>FI. arrangeFunctionDeclaration plainCGT decl_f = Inr FI \<and> \<not> isVariadic FI)
   \<and> (\<exists>FI. arrangeFreeFunctionLikeCall plainCGT two_int_args (FunctionNoProto noProto_int) 0
               FnInfoOpts_None = Inr FI
            \<and> isVariadic FI \<and> getNumRequiredArgs FI = 2
            \<and> ArgTypeSlots FI = [intTy, intTy])"
  using unprototyped_arrangement
    [of plainCGT noProto_int decl_f noProto_int 0 two_int_args FnInfoOpts_None]
  by (auto simp: decl_f_def two_int_args_def)

subsection \<open>Inheriting constructors\<close>

text \<open>
  C7 (as the spec states it, refuted). With a shadow declaration that constructs no
  virtual base and an ABI without constructor variants, the claim says the formal
  parameters are dropped; the code keeps them (\<^verbatim>\<open>this\<close>, then \<^verbatim>\<open>int\<close>). With a
  shadow declaration that constructs a virtual base, an ABI with constructor variants and
  the base-object constructor, the claim says the parameters are appended; the code drops
  them.
\<close>

theorem inheriting_ctor_drop_condition_counterexample:
  "inheritingCtorHasParams (plainCGT\<lparr>hasConstructorVariants := False\<rparr>)
      \<lparr>constructsVirtualBase = False\<rparr> Ctor_Base = True
   \<and> (case arrangeCXXStructorDeclaration (plainCGT\<lparr>hasConstructorVariants := False\<rparr>)
             \<lparr>getDecl = inheriting_ctor False, getCtorType = Ctor_Base\<rparr> of
        Inl e \<Rightarrow> False
      | Inr FI \<Rightarrow> ArgTypeSlots FI = [this_D, intTy])
   \<and> inheritingCtorHasParams plainCGT \<lparr>constructsVirtualBase = True\<rparr> Ctor_Base = False
   \<and> (case arrangeCXXStructorDeclaration plainCGT
             \<lparr>getDecl = inheriting_ctor True, getCtorType = Ctor_Base\<rparr> of
        Inl e \<Rightarrow> False
      | Inr FI \<Rightarrow> ArgTypeSlots FI = [this_D])"
  by (simp add: inheritingCtorHasParams_def arrangeCXXStructorDeclaration_def
      inheriting_ctor_def DeriveThisType_def GetFormalType_def appendParameterTypes_def
      ctor_proto_def plainCGT_def plainABI_def arrangeCIRFunctionInfo_def create_def
      this_D_def)

text \<open>
  C7 (amended). For a constructor declaration that inherits from a base (with a parent
  record, a prototype without extended parameter infos, and an ABI without \<^verbatim>\<open>this\<close>
  return), arranging its signature drops all formal parameters exactly when the
  constructor variant is not the complete-object constructor, the shadow declaration
  constructs a virtual base and the ABI has constructor variants: the ABI then receives
  the implicit receiver alone to add its structor arguments to. Otherwise it receives the
  receiver followed by the parameters of the inherited prototype. The descriptor is
  variadic only when the parameters are passed and the prototype is variadic.
\<close>

theorem inheriting_ctor_params:
  assumes "asCXXMethodDecl (getDecl GD) = Some MD"
    and "methodKind MD = CXXConstructorDecl (Some Inherited)"
    and "getParent MD = Some rd"
    and "getType (getDecl GD) = FunctionProto FTP"
    and "hasExtParameterInfos FTP = False"
    and "HasThisReturn (TheCXXABI CGT) GD = False"
  shows "inheritingCtorHasParams CGT Inherited (getCtorType GD)
           = (\<not> (getCtorType GD \<noteq> Ctor_Complete \<and> constructsVirtualBase Inherited
                 \<and> hasConstructorVariants CGT))
         \<and> (\<exists>FI. arrangeCXXStructorDeclaration CGT GD = Inr FI
              \<and> ArgTypeSlots FI =
                  snd (buildStructorSignature (TheCXXABI CGT) GD
                    (if getCtorType GD \<noteq> Ctor_Complete \<and> constructsVirtualBase Inherited
                        \<and> hasConstructorVariants CGT
                     then [PointerTy (AddrSpaceQualTy (TagDeclTy rd) (getAddressSpace MD))]
                     else PointerTy (AddrSpaceQualTy (TagDeclTy rd) (getAddressSpace MD))
                            # proto_ParamTypes FTP))
              \<and> InstanceMethod FI
              \<and> (isVariadic FI \<longleftrightarrow>
                    proto_isVariadic FTP
                    \<and> \<not> (getCtorType GD \<noteq> Ctor_Complete \<and> constructsVirtualBase Inherited
                          \<and> hasConstructorVariants CGT)))"
proof -
  obtain AddedArgs argTypes where b:
    "buildStructorSignature (TheCXXABI CGT) GD
       (if getCtorType GD \<noteq> Ctor_Complete \<and> constructsVirtualBase Inherited
           \<and> hasConstructorVariants CGT
        then [PointerTy (AddrSpaceQualTy (TagDeclTy rd) (getAddressSpace MD))]
        else PointerTy (AddrSpaceQualTy (TagDeclTy rd) (getAddressSpace MD))
               # proto_ParamTypes FTP) = (AddedArgs, argTypes)"
    by (cases "buildStructorSignature (TheCXXABI CGT) GD
       (if getCtorType GD \<noteq> Ctor_Complete \<and> constructsVirtualBase Inherited
           \<and> hasConstructorVariants CGT
        then [PointerTy (AddrSpaceQualTy (TagDeclTy rd) (getAddressSpace MD))]
        else PointerTy (AddrSpaceQualTy (TagDeclTy rd) (getAddressSpace MD))
               # proto_ParamTypes FTP)") auto
  have p: "inheritingCtorHasParams CGT Inherited (getCtorType GD)
           = (\<not> (getCtorType GD \<noteq> Ctor_Complete \<and> constructsVirtualBase Inherited
                 \<and> hasConstructorVariants CGT))"
    by (auto simp: inheritingCtorHasParams_def)
  show ?thesis
  proof (cases "getCtorType GD \<noteq> Ctor_Complete \<and> constructsVirtualBase Inherited
                  \<and> hasConstructorVariants CGT")
    case True
    with assms b p show ?thesis
      by (simp add: arrangeCXXStructorDeclaration_def DeriveThisType_def GetFormalType_def
          arrangeCIRFunctionInfo_def create_def isVariadic_def Let_def)
  next
    case False
    with assms b p show ?thesis
      by (auto simp: arrangeCXXStructorDeclaration_def DeriveThisType_def GetFormalType_def
          appendParameterTypes_def arrangeCIRFunctionInfo_def create_def isVariadic_def
          Let_def)
  qed
qed

theorem inheriting_ctor_params_witness:
  "inheritingCtorHasParams plainCGT \<lparr>constructsVirtualBase = True\<rparr> Ctor_Complete = True
   \<and> (\<exists>FI. arrangeCXXStructorDeclaration plainCGT
              \<lparr>getDecl = inheriting_ctor True, getCtorType = Ctor_Complete\<rparr> = Inr FI
            \<and> ArgTypeSlots FI = [this_D, intTy] \<and> InstanceMethod FI \<and> \<not> isVariadic FI)"
  using inheriting_ctor_params
    [of "\<lparr>getDecl = inheriting_ctor True, getCtorType = Ctor_Complete\<rparr>"
        "\<lparr>getParent = Some ''D'', isInstance = True, isVirtual = False, getAddressSpace = 0,
          methodKind = CXXConstructorDecl (Some \<lparr>constructsVirtualBase = True\<rparr>)\<rparr>"
        "\<lparr>constructsVirtualBase = True\<rparr>" "''D''" ctor_proto plainCGT]
  by (auto simp: inheriting_ctor_def ctor_proto_def plainCGT_def plainABI_def this_D_def)

subsection \<open>The machine function type\<close>

lemma convertRequiredArguments_pure:
  "convertRequiredArguments (pureConvert conv) Ts S = Inr (map conv Ts, S)"
  by (induction Ts) (simp_all add: pureConvert_def)

lemma GetFunctionType_pure:
  assumes "FI \<notin> S"
  shows "GetFunctionType (pureConvert conv) FI S =
           Inr (cir_FuncType (map conv (requiredArguments FI))
                  (if conv (getReturnType FI) = NullType then cir_VoidType
                   else conv (getReturnType FI))
                  (isVariadic FI), S)"
proof -
  have "convertRequiredArguments (pureConvert conv) (requiredArguments FI) (insert FI S)
          = Inr (map conv (requiredArguments FI), insert FI S)"
    by (rule convertRequiredArguments_pure)
  moreover have "insert FI S - {FI} = S"
    using assms by auto
  ultimately show ?thesis
    using assms by (simp add: GetFunctionType_def pureConvert_def)
qed

lemma GetFunctionType_in_progress:
  "FI \<in> S \<Longrightarrow>
   GetFunctionType convertType FI S = Inl (AssertionFailed ''Recursively being processed?'')"
  by (simp add: GetFunctionType_def)

lemma GetFunctionType_released:
  assumes "GetFunctionType convertType FI S = Inr (T, S')"
  shows "FI \<notin> S \<and> FI \<notin> S'"
  using assms
  by (auto simp: GetFunctionType_def split: if_splits sum.splits prod.splits)

lemma convertRequiredArguments_reentry:
  assumes "FI \<in> S" and "T0 \<in> set Ts"
  shows "convertRequiredArguments (reenteringConvertOn (pureConvert conv) FI T0) Ts S
           = Inl (AssertionFailed ''Recursively being processed?'')"
  using assms
proof (induction Ts)
  case Nil
  then show ?case by simp
next
  case (Cons T Ts)
  show ?case
  proof (cases "T = T0")
    case True
    with Cons.prems(1) show ?thesis
      by (simp add: reenteringConvertOn_def GetFunctionType_in_progress)
  next
    case False
    with Cons.prems have "T0 \<in> set Ts" by simp
    with Cons.IH Cons.prems(1) False show ?thesis
      by (simp add: reenteringConvertOn_def pureConvert_def)
  qed
qed

lemma convertRequiredArguments_in_progress_only:
  assumes agree: "\<forall>T S'. FI \<in> S' \<longrightarrow> convertType T S' = convertType' T S'"
    and keep: "\<forall>T S' m S''. FI \<in> S' \<and> convertType T S' = Inr (m, S'') \<longrightarrow> FI \<in> S''"
    and "FI \<in> S"
  shows "convertRequiredArguments convertType Ts S = convertRequiredArguments convertType' Ts S"
  using \<open>FI \<in> S\<close>
proof (induction Ts arbitrary: S)
  case Nil
  then show ?case by simp
next
  case (Cons T Ts)
  from agree Cons.prems have same: "convertType' T S = convertType T S" by simp
  show ?case
  proof (cases "convertType T S")
    case (Inl e)
    with same show ?thesis by simp
  next
    case (Inr r)
    obtain m S1 where r: "r = (m, S1)" by (cases r)
    with keep Cons.prems Inr have "FI \<in> S1" by blast
    then have "convertRequiredArguments convertType Ts S1
                 = convertRequiredArguments convertType' Ts S1"
      by (rule Cons.IH)
    with same Inr r show ?thesis by simp
  qed
qed

lemma GetFunctionType_in_progress_only:
  assumes agree: "\<forall>T S'. FI \<in> S' \<longrightarrow> convertType T S' = convertType' T S'"
    and keep: "\<forall>T S' m S''. FI \<in> S' \<and> convertType T S' = Inr (m, S'') \<longrightarrow> FI \<in> S''"
  shows "GetFunctionType convertType FI S = GetFunctionType convertType' FI S"
proof (cases "FI \<in> S")
  case True
  then show ?thesis by (simp add: GetFunctionType_in_progress)
next
  case False
  from agree have same:
    "convertType' (getReturnType FI) (insert FI S) = convertType (getReturnType FI) (insert FI S)"
    by simp
  show ?thesis
  proof (cases "convertType (getReturnType FI) (insert FI S)")
    case (Inl e)
    with same False show ?thesis by (simp add: GetFunctionType_def)
  next
    case (Inr r)
    obtain resultType S1 where r: "r = (resultType, S1)" by (cases r)
    with keep Inr have "FI \<in> S1" by blast
    with agree keep have
      "convertRequiredArguments convertType (requiredArguments FI) S1
         = convertRequiredArguments convertType' (requiredArguments FI) S1"
      by (rule convertRequiredArguments_in_progress_only)
    with same Inr r False show ?thesis by (simp add: GetFunctionType_def)
  qed
qed

lemma GetFunctionType_reentry_on:
  assumes "FI \<notin> S" and "T0 \<in> set (getReturnType FI # requiredArguments FI)"
  shows "GetFunctionType (reenteringConvertOn (pureConvert conv) FI T0) FI S
           = Inl (AssertionFailed ''Recursively being processed?'')"
proof (cases "getReturnType FI = T0")
  case True
  have "GetFunctionType (pureConvert conv) FI (insert FI S)
          = Inl (AssertionFailed ''Recursively being processed?'')"
    by (rule GetFunctionType_in_progress) simp
  with True assms(1) show ?thesis
    by (simp add: GetFunctionType_def [of "reenteringConvertOn (pureConvert conv) FI T0"]
        reenteringConvertOn_def)
next
  case False
  with assms(2) have "T0 \<in> set (requiredArguments FI)" by auto
  then have "convertRequiredArguments (reenteringConvertOn (pureConvert conv) FI T0)
               (requiredArguments FI) (insert FI S)
             = Inl (AssertionFailed ''Recursively being processed?'')"
    by (intro convertRequiredArguments_reentry) simp_all
  with False assms(1) show ?thesis
    by (simp add: GetFunctionType_def [of "reenteringConvertOn (pureConvert conv) FI T0"]
        reenteringConvertOn_def pureConvert_def)
qed

text \<open>
  C9. Constructing the machine type of a descriptor that is already in the in-progress set
  is rejected with the fault "Recursively being processed?". The descriptor is put into
  the set before any of its component types is converted and stays there while the return
  type and every required argument type are converted: a conversion that needs the
  machine type of the same descriptor again, for the return type or for any one of the
  required argument types, makes the construction fault instead of recursing; and the
  construction never asks for a conversion in a set without the descriptor, so that two
  conversions that agree on the sets holding the descriptor (and leave it there) give
  the same result. After a construction that did not fault the descriptor is not in the
  set, and when the conversions leave the set as they found it the set is the one before
  the construction.
\<close>

theorem GetFunctionType_reentrancy_guard:
  "(FI \<in> S \<longrightarrow>
      GetFunctionType convertType FI S
        = Inl (AssertionFailed ''Recursively being processed?''))
   \<and> (FI \<notin> S \<longrightarrow>
      GetFunctionType (reenteringConvert convertType FI) FI S
        = Inl (AssertionFailed ''Recursively being processed?''))
   \<and> (\<forall>T S'. GetFunctionType convertType FI S = Inr (T, S') \<longrightarrow> FI \<notin> S \<and> FI \<notin> S')
   \<and> (FI \<notin> S \<longrightarrow> (\<exists>T. GetFunctionType (pureConvert conv) FI S = Inr (T, S)))
   \<and> (FI \<notin> S \<and> T0 \<in> set (getReturnType FI # requiredArguments FI) \<longrightarrow>
      GetFunctionType (reenteringConvertOn (pureConvert conv) FI T0) FI S
        = Inl (AssertionFailed ''Recursively being processed?''))
   \<and> ((\<forall>T S'. FI \<in> S' \<longrightarrow> convertType T S' = convertType' T S')
       \<and> (\<forall>T S' m S''. FI \<in> S' \<and> convertType T S' = Inr (m, S'') \<longrightarrow> FI \<in> S'') \<longrightarrow>
      GetFunctionType convertType FI S = GetFunctionType convertType' FI S)"
proof (intro conjI impI allI)
  assume "FI \<in> S"
  then show "GetFunctionType convertType FI S
               = Inl (AssertionFailed ''Recursively being processed?'')"
    by (rule GetFunctionType_in_progress)
next
  assume "FI \<notin> S"
  have "GetFunctionType convertType FI (insert FI S)
          = Inl (AssertionFailed ''Recursively being processed?'')"
    by (rule GetFunctionType_in_progress) simp
  with \<open>FI \<notin> S\<close>
  show "GetFunctionType (reenteringConvert convertType FI) FI S
          = Inl (AssertionFailed ''Recursively being processed?'')"
    by (simp add: GetFunctionType_def [of "reenteringConvert convertType FI"]
        reenteringConvert_def)
next
  fix T S'
  assume "GetFunctionType convertType FI S = Inr (T, S')"
  then have "FI \<notin> S \<and> FI \<notin> S'" by (rule GetFunctionType_released)
  then show "FI \<notin> S" and "FI \<notin> S'" by simp_all
next
  assume "FI \<notin> S"
  then show "\<exists>T. GetFunctionType (pureConvert conv) FI S = Inr (T, S)"
    by (simp add: GetFunctionType_pure)
next
  assume h: "FI \<notin> S \<and> T0 \<in> set (getReturnType FI # requiredArguments FI)"
  then have "FI \<notin> S" and "T0 \<in> set (getReturnType FI # requiredArguments FI)"
    by simp_all
  then show "GetFunctionType (reenteringConvertOn (pureConvert conv) FI T0) FI S
          = Inl (AssertionFailed ''Recursively being processed?'')"
    by (rule GetFunctionType_reentry_on)
next
  assume h: "(\<forall>T S'. FI \<in> S' \<longrightarrow> convertType T S' = convertType' T S')
       \<and> (\<forall>T S' m S''. FI \<in> S' \<and> convertType T S' = Inr (m, S'') \<longrightarrow> FI \<in> S'')"
  then have agree: "\<forall>T S'. FI \<in> S' \<longrightarrow> convertType T S' = convertType' T S'"
    and keep: "\<forall>T S' m S''. FI \<in> S' \<and> convertType T S' = Inr (m, S'') \<longrightarrow> FI \<in> S''"
    by blast+
  then show "GetFunctionType convertType FI S = GetFunctionType convertType' FI S"
    by (rule GetFunctionType_in_progress_only)
qed

theorem GetFunctionType_reentrancy_guard_witness:
  "GetFunctionType (pureConvert convertExample) descriptor_Int {descriptor_Int}
     = Inl (AssertionFailed ''Recursively being processed?'')
   \<and> GetFunctionType (reenteringConvert (pureConvert convertExample) descriptor_Int)
       descriptor_Int {}
     = Inl (AssertionFailed ''Recursively being processed?'')
   \<and> GetFunctionType (pureConvert convertExample) descriptor_Int {}
     = Inr (cir_FuncType [cir_IntType 32 True] (cir_IntType 32 True) False, {})
   \<and> GetFunctionType (reenteringConvertOn (pureConvert convertExample) descriptor_printf charPtrTy)
       descriptor_printf {}
     = Inl (AssertionFailed ''Recursively being processed?'')
   \<and> GetFunctionType (whileInProgress (pureConvert convertExample) descriptor_Int)
       descriptor_Int {}
     = Inr (cir_FuncType [cir_IntType 32 True] (cir_IntType 32 True) False, {})"
proof -
  have agree: "\<forall>T S'. descriptor_Int \<in> S' \<longrightarrow>
      pureConvert convertExample T S'
        = whileInProgress (pureConvert convertExample) descriptor_Int T S'"
    by (simp add: whileInProgress_def)
  have keep: "\<forall>T S' m S''. descriptor_Int \<in> S' \<and> pureConvert convertExample T S' = Inr (m, S'')
      \<longrightarrow> descriptor_Int \<in> S''"
    by (auto simp: pureConvert_def)
  have arg: "charPtrTy \<in> set (getReturnType descriptor_printf # requiredArguments descriptor_printf)"
    by (simp add: descriptor_printf_def descriptor_of_def requiredArguments_def
        getNumRequiredArgs_def)
  have out: "descriptor_printf \<notin> {}" by simp
  have same: "GetFunctionType (pureConvert convertExample) descriptor_Int {}
                = GetFunctionType (whileInProgress (pureConvert convertExample) descriptor_Int)
                    descriptor_Int {}"
    using GetFunctionType_reentrancy_guard
      [of descriptor_Int "{}" "pureConvert convertExample" convertExample intTy
          "whileInProgress (pureConvert convertExample) descriptor_Int"]
      agree keep
    by blast
  have reentry: "GetFunctionType
        (reenteringConvertOn (pureConvert convertExample) descriptor_printf charPtrTy)
        descriptor_printf {}
      = Inl (AssertionFailed ''Recursively being processed?'')"
    using GetFunctionType_reentrancy_guard
      [of descriptor_printf "{}" "pureConvert convertExample" convertExample charPtrTy
          "pureConvert convertExample"]
      arg out
    by blast
  have first: "GetFunctionType (pureConvert convertExample) descriptor_Int {descriptor_Int}
     = Inl (AssertionFailed ''Recursively being processed?'')
   \<and> GetFunctionType (reenteringConvert (pureConvert convertExample) descriptor_Int)
       descriptor_Int {}
     = Inl (AssertionFailed ''Recursively being processed?'')
   \<and> GetFunctionType (pureConvert convertExample) descriptor_Int {}
     = Inr (cir_FuncType [cir_IntType 32 True] (cir_IntType 32 True) False, {})"
    using GetFunctionType_reentrancy_guard
      [of descriptor_Int "{descriptor_Int}" "pureConvert convertExample" convertExample intTy
          "pureConvert convertExample"]
      GetFunctionType_reentrancy_guard
      [of descriptor_Int "{}" "pureConvert convertExample" convertExample intTy
          "pureConvert convertExample"]
    by (simp add: GetFunctionType_pure descriptor_Int_def descriptor_of_def
        requiredArguments_def getNumRequiredArgs_def arg_size_def getReturnType_def
        isVariadic_def intTy_def)
  from first same reentry show ?thesis by simp
qed

text \<open>
  C10. For a descriptor that is not under construction and a conversion of types that
  constructs no function type, the machine function type has the converted types of
  exactly the required arguments as its inputs (the first \<open>getNumRequiredArgs\<close> argument
  types: the optional tail of a variadic descriptor gives no input), its variadic flag is
  the descriptor's, and its return type is the converted return type, or the void type
  when that is null.
\<close>

theorem GetFunctionType_shape:
  assumes "FI \<notin> S"
  shows "\<exists>fnTy. GetFunctionType (pureConvert conv) FI S = Inr (fnTy, S)
           \<and> getInputs fnTy = map conv (take (getNumRequiredArgs FI) (ArgTypeSlots FI))
           \<and> length (getInputs fnTy) = min (getNumRequiredArgs FI) (length (ArgTypeSlots FI))
           \<and> isVarArg fnTy = isVariadic FI
           \<and> getFuncReturnType fnTy =
               (if conv (getReturnType FI) = NullType then cir_VoidType
                else conv (getReturnType FI))"
  using assms
  by (simp add: GetFunctionType_pure requiredArguments_def min_def)

theorem GetFunctionType_shape_witness:
  "GetFunctionType (pureConvert convertExample) descriptor_printf {}
     = Inr (cir_FuncType [cir_PointerType (cir_IntType 8 True)] (cir_IntType 32 True) True, {})
   \<and> GetFunctionType (pureConvert convertExample)
       (descriptor_of VoidTy [intTy] RequiredArgs_All) {}
     = Inr (cir_FuncType [cir_IntType 32 True] cir_VoidType False, {})"
  using GetFunctionType_shape [of descriptor_printf "{}" convertExample]
    GetFunctionType_shape [of "descriptor_of VoidTy [intTy] RequiredArgs_All" "{}"
      convertExample]
  by (simp add: GetFunctionType_pure descriptor_printf_def descriptor_of_def
      requiredArguments_def getNumRequiredArgs_def arg_size_def getReturnType_def
      isVariadic_def intTy_def charPtrTy_def)

subsection \<open>Argument materialisation\<close>

lemma required_input_consistent:
  assumes "ArgNo < getNumInputs (cir_FuncType (map conv (take n types)) ret va)"
  shows "getInput (cir_FuncType (map conv (take n types)) ret va) ArgNo = conv (types ! ArgNo)"
  using assms by (simp add: getNumInputs_def getInput_def)

text \<open>
  C3 (as the spec states it, refuted). A \<^verbatim>\<open>char\<close> value (8 bits) supplied for a 32-bit
  integer slot is not widened: materialisation raises the fault. An \<^verbatim>\<open>unsigned\<close> value
  supplied for a signed slot of the same width is not bitcast: it raises the fault too.
\<close>

theorem scalar_widening_counterexample:
  "materializeArg convertExample (cir_FuncType [cir_IntType 32 True] cir_VoidType False)
      builder0 0 (scalarArg (BuiltinTy ''char'') ''c'' (cir_IntType 8 True)) intTy
     = Inl (Unreachable ''NYI'')
   \<and> materializeArg convertExample (cir_FuncType [cir_IntType 32 True] cir_VoidType False)
      builder0 0 (scalarArg (BuiltinTy ''unsigned'') ''u'' (cir_IntType 32 False)) intTy
     = Inl (Unreachable ''NYI'')"
  by (simp add: materializeArg_def scalarArg_def isAggregate_def getKnownRValue_def
      getScalarVal_def intTy_def)

text \<open>
  C3 (amended). For a scalar (non-record) argument slot whose parameter type in the
  machine function type, if it has one, is the slot's converted type: a supplied value of
  the slot's type is passed unchanged; a supplied value of an integer type that differs
  from the slot's type in any way (wider, narrower, or of the same width) raises the
  internal fault, so no integer is ever truncated and none is widened either; a supplied
  value of a non-integer type that differs is bitcast to the parameter type when the slot
  is a parameter of the machine function type, and passed unchanged in the variadic tail.
  In particular an integer value that is passed is passed as it is.
\<close>

theorem scalar_argument_materialisation:
  assumes "isa_RecordType (convertType argQualType) = False"
    and "argValue I = RV (RValue_get V)"
    and "ArgNo < getNumInputs CIRFuncTy \<longrightarrow> getInput CIRFuncTy ArgNo = convertType argQualType"
  shows "materializeArg convertType CIRFuncTy B ArgNo I argQualType =
           (if value_getType V = convertType argQualType then Inr (V, B)
            else if isa_IntType (value_getType V) then Inl (Unreachable ''NYI'')
            else if ArgNo < getNumInputs CIRFuncTy then
              Inr (BitcastResult V (convertType argQualType),
                   insert_op B (CastOp_bitcast V (convertType argQualType)))
            else Inr (V, B))
         \<and> (\<forall>w s w' s'. value_getType V = cir_IntType w s
               \<and> convertType argQualType = cir_IntType w' s' \<and> (w' < w \<or> w < w' \<or> s \<noteq> s')
             \<longrightarrow> materializeArg convertType CIRFuncTy B ArgNo I argQualType
                   = Inl (Unreachable ''NYI''))
         \<and> (\<forall>V' B'. materializeArg convertType CIRFuncTy B ArgNo I argQualType = Inr (V', B')
               \<and> isa_IntType (value_getType V)
             \<longrightarrow> V' = V \<and> B' = B)"
proof -
  have eq: "materializeArg convertType CIRFuncTy B ArgNo I argQualType =
           (if value_getType V = convertType argQualType then Inr (V, B)
            else if isa_IntType (value_getType V) then Inl (Unreachable ''NYI'')
            else if ArgNo < getNumInputs CIRFuncTy then
              Inr (BitcastResult V (convertType argQualType),
                   insert_op B (CastOp_bitcast V (convertType argQualType)))
            else Inr (V, B))"
    using assms
    by (auto simp: materializeArg_def isAggregate_def getKnownRValue_def getScalarVal_def
        createBitcast_def Let_def)
  show ?thesis
  proof (intro conjI allI impI)
    show "materializeArg convertType CIRFuncTy B ArgNo I argQualType =
           (if value_getType V = convertType argQualType then Inr (V, B)
            else if isa_IntType (value_getType V) then Inl (Unreachable ''NYI'')
            else if ArgNo < getNumInputs CIRFuncTy then
              Inr (BitcastResult V (convertType argQualType),
                   insert_op B (CastOp_bitcast V (convertType argQualType)))
            else Inr (V, B))"
      by (rule eq)
  next
    fix w s w' s'
    assume "value_getType V = cir_IntType w s
               \<and> convertType argQualType = cir_IntType w' s' \<and> (w' < w \<or> w < w' \<or> s \<noteq> s')"
    then show "materializeArg convertType CIRFuncTy B ArgNo I argQualType
                 = Inl (Unreachable ''NYI'')"
      by (auto simp: eq)
  next
    fix V' B'
    assume h: "materializeArg convertType CIRFuncTy B ArgNo I argQualType = Inr (V', B')
               \<and> isa_IntType (value_getType V)"
    then show "V' = V" by (auto simp: eq split: if_splits)
    from h show "B' = B" by (auto simp: eq split: if_splits)
  qed
qed

theorem scalar_argument_materialisation_witness:
  "materializeArg convertExample (cir_FuncType [cir_IntType 32 True] cir_VoidType False)
      builder0 0 (scalarArg intTy ''i'' (cir_IntType 32 True)) intTy
     = Inr (Value ''i'' (cir_IntType 32 True), builder0)
   \<and> materializeArg convertExample (cir_FuncType [cir_IntType 32 True] cir_VoidType False)
      builder0 0 (scalarArg (BuiltinTy ''long'') ''l'' (cir_IntType 64 True)) intTy
     = Inl (Unreachable ''NYI'')
   \<and> materializeArg convertExample
      (cir_FuncType [cir_PointerType (cir_IntType 8 True)] cir_VoidType False)
      builder0 0 (scalarArg VoidPtrTy ''p'' (cir_PointerType cir_VoidType)) charPtrTy
     = Inr (BitcastResult (Value ''p'' (cir_PointerType cir_VoidType))
              (cir_PointerType (cir_IntType 8 True)),
            insert_op builder0
              (CastOp_bitcast (Value ''p'' (cir_PointerType cir_VoidType))
                 (cir_PointerType (cir_IntType 8 True))))"
  using scalar_argument_materialisation
      [of convertExample intTy "scalarArg intTy ''i'' (cir_IntType 32 True)"
          "Value ''i'' (cir_IntType 32 True)" 0
          "cir_FuncType [cir_IntType 32 True] cir_VoidType False" builder0]
    scalar_argument_materialisation
      [of convertExample intTy "scalarArg (BuiltinTy ''long'') ''l'' (cir_IntType 64 True)"
          "Value ''l'' (cir_IntType 64 True)" 0
          "cir_FuncType [cir_IntType 32 True] cir_VoidType False" builder0]
    scalar_argument_materialisation
      [of convertExample charPtrTy "scalarArg VoidPtrTy ''p'' (cir_PointerType cir_VoidType)"
          "Value ''p'' (cir_PointerType cir_VoidType)" 0
          "cir_FuncType [cir_PointerType (cir_IntType 8 True)] cir_VoidType False" builder0]
  by (simp add: scalarArg_def intTy_def charPtrTy_def getNumInputs_def getInput_def)

text \<open>
  C4 (as the spec states it, refuted). An aggregate argument held in memory of the shape
  \<^verbatim>\<open>{u64}\<close>, passed to a parameter of the shape \<^verbatim>\<open>{s32, s32}\<close>: the shapes differ, and
  materialisation raises the fault; it does not reinterpret the address and load.
\<close>

theorem aggregate_reinterpret_counterexample:
  "materializeArg convertExample (cir_FuncType [struct_S] cir_VoidType False) builder0 0
      (aggregateArg ''tmp'' struct_U64) (TagDeclTy ''S'')
     = Inl (Unreachable ''NYI'')"
  by (simp add: materializeArg_def aggregateArg_def struct_U64_def isAggregate_def
      aggregateSource_def hasLValue_def getKnownRValue_def getAggregateAddress_def
      addressOf_def)

text \<open>
  C4 (amended). For an aggregate argument (the slot's machine type is a record type, the
  argument has a source address): when the machine shape in memory equals the parameter
  shape, materialisation is a straight load of the source address, the one operation
  created, with no bitcast; when the shapes differ, materialisation raises the internal
  fault (reinterpreting the address is not implemented).
\<close>

theorem aggregate_argument_materialisation:
  assumes "isa_RecordType (convertType argQualType)"
    and "aggregateSource I = Inr Src"
  shows "materializeArg convertType CIRFuncTy B ArgNo I argQualType =
           (if getElementType Src = convertType argQualType then
              Inr (LoadResult (getPointer Src) (getElementType Src), insert_op B (LoadOp Src))
            else Inl (Unreachable ''NYI''))"
proof -
  have "isAggregate I"
    using assms(2)
    by (auto simp: aggregateSource_def isAggregate_def hasLValue_def getKnownRValue_def
        getAggregateAddress_def split: CallArgValue.splits RValue.splits if_splits)
  with assms show ?thesis
    by (simp add: materializeArg_def createElementBitCast_def createLoad_def Let_def)
qed

theorem aggregate_argument_materialisation_witness:
  "materializeArg convertExample (cir_FuncType [struct_S] cir_VoidType False) builder0 0
      (aggregateArg ''agg.tmp'' struct_S) (TagDeclTy ''S'')
     = Inr (LoadResult (Value ''agg.tmp'' (cir_PointerType struct_S)) struct_S,
            builder0\<lparr>created :=
              [(\<lparr>ip_region = 0, ip_after = None\<rparr>, LoadOp (addressOf ''agg.tmp'' struct_S))]\<rparr>)"
  using aggregate_argument_materialisation
      [of convertExample "TagDeclTy ''S''" "aggregateArg ''agg.tmp'' struct_S"
          "addressOf ''agg.tmp'' struct_S"
          "cir_FuncType [struct_S] cir_VoidType False" builder0 0]
  by (simp add: aggregateArg_def aggregateSource_def hasLValue_def getKnownRValue_def
      getAggregateAddress_def struct_S_def addressOf_def insert_op_def builder0_def)

subsection \<open>Evaluating a whole call\<close>

lemmas emitCall_eval =
  emitCall_def calleeOf_def calleeInfoOf_def decl_Int_def proto_Int_def plainCGF_def plainCGM_def
  plainLangOpts_def descriptor_Int_def descriptor_of_def builder0_def scalarArg_def intTy_def
  GetFunctionType_def pureConvert_def requiredArguments_def getNumRequiredArgs_def arg_size_def
  getReturnType_def isVariadic_def materializeArg_def isAggregate_def getKnownRValue_def
  getScalarVal_def getNumInputs_def getInput_def constructAttributeList_def
  AddAttributesFromFunctionProtoType_def attributesOfFunctionDecl_def
  getDefaultFunctionAttributes_def getTrivialDefaultFunctionAttributes_def set_attr_def
  isInvoke_def CannotThrow_def hasNamed_def curFuncHasAttr_def targetDeclHasAttr_def
  resolveCallTarget_def emitCallLikeOp_def getOrCreateSurroundingTryOp_def createCallLike_def
  targetFunctionType_def insert_op_def saveInsertionPoint_def restoreInsertionPoint_def
  setInsertionPointToStart_def setInsertionPointAfterValue_def extractReturnValue_def
  getRValueThroughMemory_def createStore_def createLoad_def funcOp_Int_def addressOf_def
  plainExtInfo_def Let_def

text \<open>The scenario of the spec: a call of \<^verbatim>\<open>int Int(int i)\<close> that may throw, outside any
  \<^verbatim>\<open>try\<close>. The arranged declaration has one required \<^verbatim>\<open>int\<close> argument and no
  extended info; the call is wrapped in a synthetic \<^verbatim>\<open>cir.try\<close> (region 1), its result
  is stored next to it and reloaded in region 0.\<close>

lemma scenario_Int_arranged:
  "arrangeFreeFunctionType plainCGT proto_Int = Inr descriptor_Int"
  by (simp add: arrangeFreeFunctionType_def arrangeCIRFunctionInfo_prefix_def
      forPrototypePlus_def appendParameterTypes_def arrangeCIRFunctionInfo_def create_def
      proto_Int_def plainCGT_def plainExtInfo_def descriptor_Int_def descriptor_of_def)

lemma scenario_Int_call:
  "(case emitCall plainCGF builder0 {} descriptor_Int (calleeOf (decl_Int [] False)) None
           [scalarArg intTy ''i'' (cir_IntType 32 True)] False of
      Inl e \<Rightarrow> False
    | Inr (ret, theCall, B) \<Rightarrow>
        isTryCall theCall \<and> getParentRegion theCall = 1
        \<and> getArgOperands theCall = [Value ''i'' (cir_IntType 32 True)]
        \<and> ret = RValue_get (LoadResult
                   (Value ''tmp.try.call.res'' (cir_PointerType (cir_IntType 32 True)))
                   (cir_IntType 32 True))
        \<and> insertionPoint B = \<lparr>ip_region = 0, ip_after = None\<rparr>)"
  by (simp add: emitCall_eval)

subsection \<open>No-throw and the choice between call and invoke\<close>

lemma hasNamed_set_attr:
  "hasNamed (set_attr A a) name \<longleftrightarrow> name = getMnemonic a \<or> hasNamed A name"
  by (simp add: hasNamed_def set_attr_def)

lemma AddAttrs_nothrow_iff:
  "hasNamed (AddAttributesFromFunctionProtoType A FPT) ''nothrow''
     \<longleftrightarrow> hasNamed A ''nothrow'' \<or> resolvedNothrow FPT"
  by (auto simp: AddAttributesFromFunctionProtoType_def resolvedNothrow_def hasNamed_set_attr
      split: option.splits)

lemma attributesOfFunctionDecl_eq:
  "attributesOfFunctionDecl M AttrOnCallSite Fn A =
     AddAttributesFromFunctionProtoType A (declPrototype (Some (FunctionDeclD Fn)))"
  by (simp add: attributesOfFunctionDecl_def declPrototype_def Let_def split: FunctionType.splits)

lemma attributesOfOpenCLKernel_nothrow:
  "hasNamed (attributesOfOpenCLKernel L A) ''nothrow'' = hasNamed A ''nothrow''"
  by (simp add: attributesOfOpenCLKernel_def hasNamed_set_attr Let_def)

lemma getDefault_nothrow:
  "getDefaultFunctionAttributes M Name opt site A = Inr A' \<Longrightarrow>
   (hasNamed A' ''nothrow'' \<longleftrightarrow> hasNamed A ''nothrow'' \<or> nothrowByDefault (getLangOpts M))"
  by (auto simp: getDefaultFunctionAttributes_def getTrivialDefaultFunctionAttributes_def
      nothrowByDefault_def hasNamed_set_attr Let_def split: if_splits)

lemma getDefault_eq:
  "SYCLIsDevice (getLangOpts M) = False \<Longrightarrow>
   getDefaultFunctionAttributes M Name opt site A =
     Inr (if nothrowByDefault (getLangOpts M)
          then set_attr (if assumeFunctionsAreConvergent (getLangOpts M)
                         then set_attr A cir_ConvergentAttr else A) cir_NoThrowAttr
          else if assumeFunctionsAreConvergent (getLangOpts M)
               then set_attr A cir_ConvergentAttr else A)"
  by (auto simp: getDefaultFunctionAttributes_def getTrivialDefaultFunctionAttributes_def
      nothrowByDefault_def Let_def)

lemma constructAttributeList_returns:
  assumes "SYCLIsDevice (getLangOpts M) = False"
  shows "\<exists>Attrs cc se. constructAttributeList M Name FI CalleeInfo A site thunk = Inr (Attrs, cc, se)"
  by (cases "getCalleeDecl CalleeInfo")
     (simp_all add: constructAttributeList_def Let_def getDefault_eq [OF assms])

lemma constructAttributeList_nothrow_iff:
  assumes "constructAttributeList M Name FI CalleeInfo A site thunk = Inr (Attrs, cc, se)"
  shows "hasNamed Attrs ''nothrow'' \<longleftrightarrow>
           hasNamed A ''nothrow''
           \<or> resolvedNothrow (getCalleeFunctionProtoType CalleeInfo)
           \<or> targetDeclHasAttr (getCalleeDecl CalleeInfo) NoThrowAttr
           \<or> resolvedNothrow (declPrototype (getCalleeDecl CalleeInfo))
           \<or> nothrowByDefault (getLangOpts M)"
proof (cases "getCalleeDecl CalleeInfo")
  case None
  with assms show ?thesis
    by (auto simp: constructAttributeList_def Let_def targetDeclHasAttr_def declPrototype_def
        resolvedNothrow_def[of None] AddAttrs_nothrow_iff
        dest!: getDefault_nothrow split: sum.splits)
next
  case (Some D)
  with assms show ?thesis
    by (cases D)
      (auto simp: constructAttributeList_def Let_def targetDeclHasAttr_def 
        AddAttrs_nothrow_iff attributesOfFunctionDecl_eq attributesOfOpenCLKernel_nothrow hasNamed_set_attr
        declPrototype_def resolvedNothrow_def[of None]
        dest!: getDefault_nothrow split: sum.splits if_splits)
qed

lemma isInvoke_nothrow:
  "hasNamed Attrs ''nothrow'' \<Longrightarrow> currentFunctionUsesSEHTry CGF = False \<Longrightarrow>
   isInvoke CGF Attrs CalleePtr = False"
  by (auto simp: isInvoke_def CannotThrow_def Let_def split: CalleeOperation.splits)

lemma emitCallLikeOp_plain:
  "emitCallLikeOp CGF B target args False cc se Attrs = Inr (call, B') \<Longrightarrow>
   isTryCall call = False \<and> getParentRegion call = ip_region (insertionPoint B)
   \<and> insertionPoint B' = insertionPoint B"
  by (auto simp: emitCallLikeOp_def createCallLike_def insert_op_def Let_def
      split: CallTarget.splits if_splits)

text \<open>
  C5 (as the spec states it, refuted). In a function that uses SEH \<^verbatim>\<open>__try\<close> (and with an
  invoke destination), a call to a function declared no-throw carries the no-throw
  attribute and is nevertheless emitted on the invoke-wrapped path, as a call with an
  unwind edge.
\<close>

theorem nothrow_under_SEH_counterexample:
  "(case emitCall (plainCGF\<lparr>currentFunctionUsesSEHTry := True\<rparr>) builder0 {} descriptor_Int
           (calleeOf (decl_Int [NoThrowAttr] False)) None
           [scalarArg intTy ''i'' (cir_IntType 32 True)] False of
      Inl e \<Rightarrow> False
    | Inr (ret, theCall, B) \<Rightarrow>
        hasNamed (getExtraCallAttrs theCall) ''nothrow'' = True \<and> isTryCall theCall = True)"
  by (simp add: emitCall_eval)

text \<open>
  C5 (amended). Outside SYCL device mode, attribute synthesis starting from no attribute
  returns, and the no-throw attribute is in its result exactly when the declaration has an
  explicit no-throw attribute, or the callee's prototype or the declaration's prototype
  has an exception specification that is resolved and non-throwing, or the language mode
  makes every function no-throw (OpenCL, CUDA/HIP device code). A prototype whose
  exception specification is unresolved is never resolved-non-throwing and adds nothing.
  When no-throw is present and the current function does not use SEH \<^verbatim>\<open>__try\<close>, the
  call is not an invoke and the call operation emitted is a plain call.
\<close>

theorem nothrow_synthesis_and_call_path:
  assumes "SYCLIsDevice (getLangOpts M) = False"
  shows "\<exists>Attrs cc se.
           constructAttributeList M Name FI CalleeInfo Map.empty AttrOnCallSite IsThunk
             = Inr (Attrs, cc, se)
           \<and> (hasNamed Attrs ''nothrow'' \<longleftrightarrow>
                 targetDeclHasAttr (getCalleeDecl CalleeInfo) NoThrowAttr
                 \<or> resolvedNothrow (getCalleeFunctionProtoType CalleeInfo)
                 \<or> resolvedNothrow (declPrototype (getCalleeDecl CalleeInfo))
                 \<or> nothrowByDefault (getLangOpts M))
           \<and> (hasNamed Attrs ''nothrow'' \<and> currentFunctionUsesSEHTry CGF = False
                \<longrightarrow> isInvoke CGF Attrs CalleePtr = False
                    \<and> (\<forall>B target args call B'.
                          emitCallLikeOp CGF B target args (isInvoke CGF Attrs CalleePtr) cc se
                            Attrs = Inr (call, B')
                          \<longrightarrow> isTryCall call = False))
           \<and> (\<forall>P A. isUnresolvedExceptionSpec P
                \<longrightarrow> resolvedNothrow (Some P) = False
                    \<and> AddAttributesFromFunctionProtoType A (Some P) = A)"
proof -
  obtain Attrs cc se where r:
    "constructAttributeList M Name FI CalleeInfo Map.empty AttrOnCallSite IsThunk
       = Inr (Attrs, cc, se)"
    using constructAttributeList_returns [OF assms] by blast
  have a: "hasNamed Attrs ''nothrow'' \<longleftrightarrow>
                 targetDeclHasAttr (getCalleeDecl CalleeInfo) NoThrowAttr
                 \<or> resolvedNothrow (getCalleeFunctionProtoType CalleeInfo)
                 \<or> resolvedNothrow (declPrototype (getCalleeDecl CalleeInfo))
                 \<or> nothrowByDefault (getLangOpts M)"
    using constructAttributeList_nothrow_iff [OF r] by (auto simp: hasNamed_def)
  have b: "hasNamed Attrs ''nothrow'' \<and> currentFunctionUsesSEHTry CGF = False
                \<longrightarrow> isInvoke CGF Attrs CalleePtr = False
                    \<and> (\<forall>B target args call B'.
                          emitCallLikeOp CGF B target args (isInvoke CGF Attrs CalleePtr) cc se
                            Attrs = Inr (call, B')
                          \<longrightarrow> isTryCall call = False)"
    using isInvoke_nothrow [of Attrs CGF CalleePtr] emitCallLikeOp_plain [of CGF]
    by auto
  have c: "\<forall>P A. isUnresolvedExceptionSpec P
                \<longrightarrow> resolvedNothrow (Some P) = False
                    \<and> AddAttributesFromFunctionProtoType A (Some P) = A"
    by (simp add: resolvedNothrow_def AddAttributesFromFunctionProtoType_def)
  from r a b c show ?thesis by blast
qed

theorem nothrow_synthesis_and_call_path_witness:
  "(\<exists>Attrs cc se.
      constructAttributeList plainCGM ''_Z3Inti'' descriptor_Int (calleeInfoOf decl_noexcept)
        Map.empty True False = Inr (Attrs, cc, se)
      \<and> hasNamed Attrs ''nothrow''
      \<and> isInvoke plainCGF Attrs (FuncOpPtr funcOp_Int) = False)
   \<and> (\<exists>Attrs cc se.
      constructAttributeList plainCGM ''_Z3Inti'' descriptor_Int (calleeInfoOf decl_unresolved)
        Map.empty True False = Inr (Attrs, cc, se)
      \<and> hasNamed Attrs ''nothrow'' = False
      \<and> isInvoke plainCGF Attrs (FuncOpPtr funcOp_Int) = True)"
proof -
  have s: "SYCLIsDevice (getLangOpts plainCGM) = False"
    by (simp add: plainCGM_def plainLangOpts_def)
  have u: "currentFunctionUsesSEHTry plainCGF = False"
    by (simp add: plainCGF_def)
  have n: "resolvedNothrow (getCalleeFunctionProtoType (calleeInfoOf decl_noexcept))"
    by (simp add: resolvedNothrow_def calleeInfoOf_def decl_noexcept_def decl_Int_def
        proto_noexcept_def proto_Int_def)
  have first: "\<exists>Attrs cc se.
      constructAttributeList plainCGM ''_Z3Inti'' descriptor_Int (calleeInfoOf decl_noexcept)
        Map.empty True False = Inr (Attrs, cc, se)
      \<and> hasNamed Attrs ''nothrow''
      \<and> isInvoke plainCGF Attrs (FuncOpPtr funcOp_Int) = False"
    using nothrow_synthesis_and_call_path
      [OF s, of "''_Z3Inti''" descriptor_Int "calleeInfoOf decl_noexcept" True False plainCGF
         "FuncOpPtr funcOp_Int"] n u
    by blast
  have second: "\<exists>Attrs cc se.
      constructAttributeList plainCGM ''_Z3Inti'' descriptor_Int (calleeInfoOf decl_unresolved)
        Map.empty True False = Inr (Attrs, cc, se)
      \<and> hasNamed Attrs ''nothrow'' = False
      \<and> isInvoke plainCGF Attrs (FuncOpPtr funcOp_Int) = True"
    by (simp add: emitCall_eval decl_unresolved_def proto_unresolved_def)
  from first second show ?thesis by blast
qed

subsection \<open>No-return at virtual and non-virtual call sites\<close>

lemma hasAttr_without:
  "A \<noteq> NoBuiltinAttr \<Longrightarrow>
   A \<in> set (fd_attrs (withoutNoReturnNoBuiltin Fn)) \<longleftrightarrow> A \<in> set (fd_attrs Fn)"
  by (simp add: withoutNoReturnNoBuiltin_def)

text \<open>
  C6 (as the spec states it, refuted). For the free (non-virtual) function
  \<^verbatim>\<open>int Int(int)\<close> declared no-return, the attribute set synthesized for a call site is
  empty, and so is the one synthesized for the definition: no-return is not propagated.
\<close>

theorem noreturn_nonvirtual_counterexample:
  "constructAttributeList plainCGM ''_Z3Inti'' descriptor_Int (calleeInfoOf (decl_Int [] True))
      Map.empty True False
     = Inr (Map.empty, cir_C, SideEffect_All)
   \<and> constructAttributeList plainCGM ''_Z3Inti'' descriptor_Int (calleeInfoOf (decl_Int [] True))
      Map.empty False False
     = Inr (Map.empty, cir_C, SideEffect_All)"
  by (simp add: emitCall_eval)

text \<open>
  C6 (amended). For every attribute synthesis, at a call site or for a definition, of a
  virtual or a non-virtual function: the declaration's no-return property and no-builtin
  attribute are not propagated. The synthesized attributes, calling convention and
  side-effect class are those of the same declaration with no-return and no-builtin taken
  off (the name mangler giving both declarations the same name).
\<close>

theorem noreturn_not_propagated:
  assumes "getMangledName M (FunctionDeclD (withoutNoReturnNoBuiltin Fn))
             = getMangledName M (FunctionDeclD Fn)"
  shows "constructAttributeList M Name FI (CalleeInfo\<lparr>getCalleeDecl := Some (FunctionDeclD Fn)\<rparr>)
           funcAttrs AttrOnCallSite IsThunk
         = constructAttributeList M Name FI
             (CalleeInfo\<lparr>getCalleeDecl := Some (FunctionDeclD (withoutNoReturnNoBuiltin Fn))\<rparr>)
             funcAttrs AttrOnCallSite IsThunk"
proof -
  have t: "getType (withoutNoReturnNoBuiltin Fn) = getType Fn"
    by (simp add: withoutNoReturnNoBuiltin_def)
  have d: "attributesOfFunctionDecl M AttrOnCallSite (withoutNoReturnNoBuiltin Fn) A
            = attributesOfFunctionDecl M AttrOnCallSite Fn A" for A
    by (simp add: attributesOfFunctionDecl_eq declPrototype_def t)
  show ?thesis
    by (simp add: constructAttributeList_def hasAttr_without d assms Let_def)
qed

theorem noreturn_not_propagated_witness:
  "constructAttributeList plainCGM ''_ZN1D3IntEi'' descriptor_Int
      (calleeInfoOf (virtual_Int [NoBuiltinAttr, PureAttr] True)) Map.empty True False
     = Inr (Map.empty, cir_C, SideEffect_Pure)
   \<and> constructAttributeList plainCGM ''_ZN1D3IntEi'' descriptor_Int
      (calleeInfoOf (withoutNoReturnNoBuiltin (virtual_Int [NoBuiltinAttr, PureAttr] True)))
      Map.empty True False
     = Inr (Map.empty, cir_C, SideEffect_Pure)"
  using noreturn_not_propagated
    [of plainCGM "virtual_Int [NoBuiltinAttr, PureAttr] True" "''_ZN1D3IntEi''" descriptor_Int
        "calleeInfoOf (virtual_Int [NoBuiltinAttr, PureAttr] True)" Map.empty True False]
  by (simp add: emitCall_eval virtual_Int_def withoutNoReturnNoBuiltin_def)

subsection \<open>The returned scalar\<close>

text \<open>
  C8. For a call with scalar evaluation kind and a return type that is not void, whose
  one result has the converted return type: if the call operation is in another region
  than the insertion point, the result is stored into a memory slot (the return value
  slot, or a fresh temporary \<^verbatim>\<open>tmp.try.call.res\<close>) right after the operation that
  defines it, next to the call, and reloaded at the insertion point, which is left where it
  was; the value returned is the reloaded one. If the call is in the region of the
  insertion point, the result itself is returned and no operation is created.
\<close>

theorem scalar_return_extraction:
  assumes "isa_VoidType (CGF_convertType CGF RetTy) = False"
    and "getEvaluationKind CGF RetTy = TEK_Scalar"
    and "getOpResults theCall = [r]"
    and "value_getType r = CGF_convertType CGF RetTy"
  shows "extractReturnValue CGF B RetTy ReturnValue theCall =
           (if ip_region (insertionPoint B) \<noteq> getParentRegion theCall then
              Inr (RValue_get
                     (LoadResult
                        (getPointer (case ReturnValue of Some a \<Rightarrow> a
                                     | None \<Rightarrow> CreateMemTemp CGF RetTy ''tmp.try.call.res''))
                        (getElementType (case ReturnValue of Some a \<Rightarrow> a
                                     | None \<Rightarrow> CreateMemTemp CGF RetTy ''tmp.try.call.res''))),
                   B\<lparr>created := created B @
                      [(\<lparr>ip_region = definedIn B r, ip_after = Some r\<rparr>,
                        StoreOp r (case ReturnValue of Some a \<Rightarrow> a
                                   | None \<Rightarrow> CreateMemTemp CGF RetTy ''tmp.try.call.res'')),
                       (insertionPoint B,
                        LoadOp (case ReturnValue of Some a \<Rightarrow> a
                                | None \<Rightarrow> CreateMemTemp CGF RetTy ''tmp.try.call.res''))]\<rparr>)
            else Inr (RValue_get r, B))"
  using assms
  by (simp add: extractReturnValue_def getRValueThroughMemory_def createStore_def createLoad_def
      insert_op_def saveInsertionPoint_def restoreInsertionPoint_def
      setInsertionPointAfterValue_def Let_def)

theorem scalar_return_extraction_witness:
  "extractReturnValue plainCGF (builder_after_call 0) intTy None (call_in_region 0)
     = Inr (RValue_get (CallResult 1 (cir_IntType 32 True)), builder_after_call 0)
   \<and> extractReturnValue plainCGF (builder_after_call 1) intTy None (call_in_region 1)
     = Inr (RValue_get (LoadResult
                          (Value ''tmp.try.call.res'' (cir_PointerType (cir_IntType 32 True)))
                          (cir_IntType 32 True)),
            (builder_after_call 1)\<lparr>created :=
              [(\<lparr>ip_region = 1, ip_after = Some (CallResult 1 (cir_IntType 32 True))\<rparr>,
                StoreOp (CallResult 1 (cir_IntType 32 True))
                  (addressOf ''tmp.try.call.res'' (cir_IntType 32 True))),
               (\<lparr>ip_region = 0, ip_after = None\<rparr>,
                LoadOp (addressOf ''tmp.try.call.res'' (cir_IntType 32 True)))]\<rparr>)"
  using scalar_return_extraction
      [of plainCGF intTy "call_in_region 0" "CallResult 1 (cir_IntType 32 True)"
          "builder_after_call 0" None]
    scalar_return_extraction
      [of plainCGF intTy "call_in_region 1" "CallResult 1 (cir_IntType 32 True)"
          "builder_after_call 1" None]
  by (simp add: plainCGF_def intTy_def call_in_region_def builder_after_call_def builder0_def
      addressOf_def)

end
